theory Spec2Isabelle
  imports Main
begin

section \<open>JavaScript values and JSON.stringify\<close>

text \<open>
  The handlers build their response bodies with \<^verbatim>\<open>JSON.stringify\<close>. The values they pass
  are object literals holding strings, and (in the failure branch of the start-export
  handler) the caught error object itself. A value is a finite tree; numbers are the
  integers (the only numbers the handlers meet are clock readings and the figures inside
  an error's metadata). A \<open>JError\<close> is an instance of \<^verbatim>\<open>Error\<close>: its \<^verbatim>\<open>message\<close>,
  whether that message is an enumerable own property, and its other own enumerable
  properties (the SDK's service exceptions carry \<^verbatim>\<open>name\<close>, \<^verbatim>\<open>$fault\<close>, \<^verbatim>\<open>$metadata\<close>),
  listed in enumeration order. The constructor of \<^verbatim>\<open>Error\<close> makes the message a property
  that is not enumerable. An error constructed without a message and given one by
  assignment afterwards holds it as an enumerable property, enumerated after the
  properties the error had by then: this is how the SDK builds the service exceptions it
  has no class for (access denied, throttling), whose message it copies from the response
  once the exception is constructed.
\<close>

datatype js_value =
    JUndefined
  | JNull
  | JBoolean bool
  | JNumber int
  | JString string
  | JArray "js_value list"
  | JObject "(string \<times> js_value) list"
  | JError string bool "(string \<times> js_value) list"

text \<open>Decimal rendering of a number, as \<^verbatim>\<open>Number.prototype.toString\<close> gives for an integer.\<close>

definition digit_char :: "nat \<Rightarrow> char" where
  "digit_char d = ''0123456789'' ! (d mod 10)"

fun nat_to_decimal :: "nat \<Rightarrow> string" where
  "nat_to_decimal n =
     (if n < 10 then [digit_char n] else nat_to_decimal (n div 10) @ [digit_char (n mod 10)])"

declare nat_to_decimal.simps [simp del]

definition Number_toString :: "int \<Rightarrow> string" where
  "Number_toString i = (if i < 0 then CHR ''-'' # nat_to_decimal (nat (- i)) else nat_to_decimal (nat i))"

text \<open>
  \<^verbatim>\<open>QuoteJSONString\<close>: the double quote and the backslash are escaped, the control
  characters below U+0020 are written with their short escape or as \<^verbatim>\<open>\u00XX\<close>.
\<close>

definition hex_char :: "nat \<Rightarrow> char" where
  "hex_char d = ''0123456789abcdef'' ! (d mod 16)"

definition quote_char :: "char \<Rightarrow> string" where
  "quote_char c =
     (if c = CHR 0x22 then [CHR 0x5C, CHR 0x22]
      else if c = CHR 0x5C then [CHR 0x5C, CHR 0x5C]
      else if c = CHR 0x08 then [CHR 0x5C, CHR ''b'']
      else if c = CHR 0x09 then [CHR 0x5C, CHR ''t'']
      else if c = CHR 0x0A then [CHR 0x5C, CHR ''n'']
      else if c = CHR 0x0C then [CHR 0x5C, CHR ''f'']
      else if c = CHR 0x0D then [CHR 0x5C, CHR ''r'']
      else if of_char c < (32::nat) then
        [CHR 0x5C, CHR ''u'', CHR ''0'', CHR ''0'',
         hex_char (of_char c div 16), hex_char (of_char c mod 16)]
      else [c])"

definition QuoteJSONString :: "string \<Rightarrow> string" where
  "QuoteJSONString s = CHR 0x22 # concat (map quote_char s) @ [CHR 0x22]"

fun join_comma :: "string list \<Rightarrow> string" where
  "join_comma [] = []"
| "join_comma [x] = x"
| "join_comma (x # y # ys) = x @ CHR '','' # join_comma (y # ys)"

text \<open>
  \<^verbatim>\<open>SerializeJSONProperty\<close> without replacer and without indentation. \<open>None\<close> is the
  result \<^verbatim>\<open>undefined\<close>: a property whose value serialises to \<^verbatim>\<open>undefined\<close> is left out
  of its object, and an array element of that kind is written \<^verbatim>\<open>null\<close>. An error object
  is serialised as any other object, from its own enumerable properties: its message is
  written when it is one of them, and only then.
\<close>

fun SerializeJSONProperty :: "js_value \<Rightarrow> string option"
  and SerializeJSONElements :: "js_value list \<Rightarrow> string list"
  and SerializeJSONMembers :: "(string \<times> js_value) list \<Rightarrow> string list"
where
  "SerializeJSONProperty JUndefined = None"
| "SerializeJSONProperty JNull = Some ''null''"
| "SerializeJSONProperty (JBoolean b) = Some (if b then ''true'' else ''false'')"
| "SerializeJSONProperty (JNumber i) = Some (Number_toString i)"
| "SerializeJSONProperty (JString s) = Some (QuoteJSONString s)"
| "SerializeJSONProperty (JArray xs) =
     Some (CHR ''['' # join_comma (SerializeJSONElements xs) @ '']'')"
| "SerializeJSONProperty (JObject ps) =
     Some (CHR ''{'' # join_comma (SerializeJSONMembers ps) @ ''}'')"
| "SerializeJSONProperty (JError m enumerable ps) =
     Some (CHR ''{'' # join_comma (SerializeJSONMembers ps @
        (if enumerable then [QuoteJSONString ''message'' @ CHR '':'' # QuoteJSONString m] else []))
       @ ''}'')"
| "SerializeJSONElements [] = []"
| "SerializeJSONElements (x # xs) =
     (case SerializeJSONProperty x of None \<Rightarrow> ''null'' | Some s \<Rightarrow> s) # SerializeJSONElements xs"
| "SerializeJSONMembers [] = []"
| "SerializeJSONMembers ((k, v) # ps) =
     (case SerializeJSONProperty v of
        None \<Rightarrow> SerializeJSONMembers ps
      | Some s \<Rightarrow> (QuoteJSONString k @ CHR '':'' # s) # SerializeJSONMembers ps)"

definition JSON_stringify :: "js_value \<Rightarrow> string option" where
  "JSON_stringify v = SerializeJSONProperty v"

section \<open>The process environment and the downstream service\<close>

text \<open>
  \<^verbatim>\<open>process.env\<close> maps variable names to strings; a variable that is not set reads as
  \<^verbatim>\<open>undefined\<close>, here \<open>None\<close>. The non-null assertion \<^verbatim>\<open>!\<close> of TypeScript has no effect
  at run time, so a value read through it is still optional.
\<close>

type_synonym environment = "string \<rightharpoonup> string"

text \<open>\<^verbatim>\<open>x || ''\<close> on an optional string: \<^verbatim>\<open>undefined\<close> and the empty string are falsy.\<close>

definition or_empty :: "string option \<Rightarrow> string" where
  "or_empty x = (case x of None \<Rightarrow> [] | Some s \<Rightarrow> (if s = [] then [] else s))"

text \<open>An optional string inside a template literal: \<^verbatim>\<open>undefined\<close> prints as its name.\<close>

definition template_string :: "string option \<Rightarrow> string" where
  "template_string x = (case x of None \<Rightarrow> ''undefined'' | Some s \<Rightarrow> s)"

definition optional_string_value :: "string option \<Rightarrow> js_value" where
  "optional_string_value x = (case x of None \<Rightarrow> JUndefined | Some s \<Rightarrow> JString s)"

text \<open>
  The SDK client and the waiter reject with instances of \<^verbatim>\<open>Error\<close> (service exceptions,
  transport errors, the waiter's own errors); both catch blocks are written for that
  type (\<^verbatim>\<open>(error as Error).message\<close>). An error has its message, the mark of a message
  that is enumerable and, listed apart from the message, its other own enumerable
  properties. A \<^verbatim>\<open>TypeError\<close> of the engine is an error with a message that is not
  enumerable and with no enumerable property.
\<close>

record js_error =
  message :: string
  enumerable_message :: bool
  properties :: "(string \<times> js_value) list"

definition error_value :: "js_error \<Rightarrow> js_value" where
  "error_value e = JError (message e) (enumerable_message e) (properties e)"

definition TypeError :: "string \<Rightarrow> js_error" where
  "TypeError m = \<lparr>message = m, enumerable_message = False, properties = []\<rparr>"

text \<open>
  The request shapes. Every field of an SDK input may be \<^verbatim>\<open>undefined\<close> (\<open>None\<close>), and
  the SDK leaves such a field out of the request it sends. The create request and the
  waiter's describe request are the same object shape. Of the export response the handler
  reads one field, \<^verbatim>\<open>ExportTaskIdentifier\<close>, here \<open>result_ExportTaskIdentifier\<close>.
\<close>

record SnapshotInput =
  DBClusterIdentifier :: "string option"
  DBClusterSnapshotIdentifier :: "string option"

record WaiterConfiguration =
  maxWaitTime :: nat

record ExportInput =
  ExportTaskIdentifier :: string
  S3BucketName :: "string option"
  IamRoleArn :: "string option"
  KmsKeyId :: "string option"

record ExportDBClusterSnapshotToS3CommandInput = ExportInput +
  SourceDBClusterSnapshotIdentifier :: "string option"

record StartExportTaskCommandInput = ExportInput +
  SourceArn :: "string option"

record ExportDBClusterSnapshotToS3CommandOutput =
  result_ExportTaskIdentifier :: "string option"

text \<open>
  How a wait ends. The waiter polls the service on its own schedule, up to the ceiling
  it is given; \<^verbatim>\<open>waitUntilDBClusterSnapshotAvailable\<close> resolves when the snapshot was seen
  available and rejects otherwise, with the error the SDK builds for that end.
\<close>

datatype waiter_outcome =
    SUCCESS
  | TIMEOUT js_error
  | FAILURE js_error
  | ABORTED js_error

fun waiter_settles :: "waiter_outcome \<Rightarrow> js_error + unit" where
  "waiter_settles SUCCESS = Inr ()"
| "waiter_settles (TIMEOUT e) = Inl e"
| "waiter_settles (FAILURE e) = Inl e"
| "waiter_settles (ABORTED e) = Inl e"

text \<open>
  The world outside the handler: the clock and the database control plane, over a state
  \<open>'w\<close> of their own that every call may change. A call takes the request and the
  state and gives what the awaited promise settles with (\<open>Inl\<close> a rejection) and the
  new state. \<open>export_command_callee\<close> is the text by which the engine names, in the
  message of a \<^verbatim>\<open>TypeError\<close>, the expression that \<^verbatim>\<open>new\<close> is applied to where the create, wait
  and export handler builds its export command; it depends on how the module was compiled
  (\<^verbatim>\<open>client_rds_1.ExportDBClusterSnapshotToS3Command\<close> in the CommonJS output of the
  TypeScript compiler).
\<close>

record 'w runtime =
  Date_now :: "'w \<Rightarrow> int"
  export_command_callee :: string
  CreateDBClusterSnapshot :: "SnapshotInput \<Rightarrow> 'w \<Rightarrow> (js_error + js_value) \<times> 'w"
  DBClusterSnapshotWaiter :: "WaiterConfiguration \<Rightarrow> SnapshotInput \<Rightarrow> 'w \<Rightarrow> waiter_outcome \<times> 'w"
  ExportDBClusterSnapshotToS3 ::
    "ExportDBClusterSnapshotToS3CommandInput \<Rightarrow> 'w \<Rightarrow> (js_error + ExportDBClusterSnapshotToS3CommandOutput) \<times> 'w"
  StartExportTask :: "StartExportTaskCommandInput \<Rightarrow> 'w \<Rightarrow> (js_error + js_value) \<times> 'w"

definition waitUntilDBClusterSnapshotAvailable ::
  "'w runtime \<Rightarrow> WaiterConfiguration \<Rightarrow> SnapshotInput \<Rightarrow> 'w \<Rightarrow> (js_error + unit) \<times> 'w" where
  "waitUntilDBClusterSnapshotAvailable rt params input w =
     (case DBClusterSnapshotWaiter rt params input w of (out, w') \<Rightarrow> (waiter_settles out, w'))"

text \<open>The requests a handler sends, in the order it sends them.\<close>

datatype rds_call =
    CreateDBClusterSnapshotCommand SnapshotInput
  | WaitUntilDBClusterSnapshotAvailable WaiterConfiguration SnapshotInput
  | ExportDBClusterSnapshotToS3Command ExportDBClusterSnapshotToS3CommandInput
  | StartExportTaskCommand StartExportTaskCommandInput

text \<open>
  The command classes are what the modules import from \<^verbatim>\<open>@aws-sdk/client-rds\<close>. The
  package exports \<^verbatim>\<open>CreateDBClusterSnapshotCommand\<close>, \<^verbatim>\<open>StartExportTaskCommand\<close> and the
  waiter. It exports no \<^verbatim>\<open>ExportDBClusterSnapshotToS3Command\<close>: the service has no operation
  of that name, its export operation is \<^verbatim>\<open>StartExportTask\<close>. The binding that line 6 of
  \<^verbatim>\<open>src/index.ts\<close> imports under that name is therefore \<^verbatim>\<open>undefined\<close> when the module runs,
  here \<open>None\<close>. The expression \<^verbatim>\<open>new C(input)\<close> on an imported binding gives the command when
  the binding is a class, and throws the engine's \<^verbatim>\<open>TypeError\<close> when it is \<^verbatim>\<open>undefined\<close>.
\<close>

definition import_ExportDBClusterSnapshotToS3Command ::
  "(ExportDBClusterSnapshotToS3CommandInput \<Rightarrow> rds_call) option" where
  "import_ExportDBClusterSnapshotToS3Command = None"

definition new_command :: "string \<Rightarrow> ('a \<Rightarrow> rds_call) option \<Rightarrow> 'a \<Rightarrow> js_error + rds_call" where
  "new_command callee imported input =
     (case imported of
        None \<Rightarrow> Inl (TypeError (callee @ '' is not a constructor''))
      | Some construct \<Rightarrow> Inr (construct input))"

text \<open>
  What an invocation leaves: how the handler's promise settled, the requests it sent,
  and the state of the world after it.
\<close>

record response =
  statusCode :: nat
  body :: "string option"

datatype settlement = Fulfilled response | Rejected js_value

record 'w invocation =
  settled :: settlement
  sent :: "rds_call list"
  world :: 'w

section \<open>The create, wait and export handler (src/index.ts)\<close>

text \<open>
  The handler reads five variables from \<^verbatim>\<open>process.env\<close> into constants when it is
  invoked, before the \<^verbatim>\<open>try\<close> block; the key is the optional one.
\<close>

record createAndExport_config =
  dbClusterIdentifier :: "string option"
  snapshotName :: "string option"
  s3BucketName :: "string option"
  exportIamRoleArn :: "string option"
  kmsKeyId :: "string option"

definition read_config :: "environment \<Rightarrow> createAndExport_config" where
  "read_config env =
     \<lparr>dbClusterIdentifier = env ''DB_CLUSTER_IDENTIFIER'',
      snapshotName = env ''SNAPSHOT_NAME'',
      s3BucketName = env ''S3_BUCKET_NAME'',
      exportIamRoleArn = env ''IAM_ROLE_ARN'',
      kmsKeyId = env ''KMS_KEY_ID''\<rparr>"

definition createSnapshotParams :: "createAndExport_config \<Rightarrow> SnapshotInput" where
  "createSnapshotParams cfg =
     \<lparr>DBClusterIdentifier = dbClusterIdentifier cfg,
      DBClusterSnapshotIdentifier = snapshotName cfg\<rparr>"

definition waiterParams :: WaiterConfiguration where
  "waiterParams = \<lparr>maxWaitTime = 600\<rparr>"

definition waiterInput :: "createAndExport_config \<Rightarrow> SnapshotInput" where
  "waiterInput cfg =
     \<lparr>DBClusterIdentifier = dbClusterIdentifier cfg,
      DBClusterSnapshotIdentifier = snapshotName cfg\<rparr>"

text \<open>The export request; \<open>now\<close> is what \<^verbatim>\<open>Date.now()\<close> returns when the request is built.\<close>

definition exportParams :: "createAndExport_config \<Rightarrow> int \<Rightarrow> ExportDBClusterSnapshotToS3CommandInput" where
  "exportParams cfg now =
     \<lparr>ExportTaskIdentifier = template_string (snapshotName cfg) @ ''-export-'' @ Number_toString now,
      S3BucketName = s3BucketName cfg,
      IamRoleArn = exportIamRoleArn cfg,
      KmsKeyId = kmsKeyId cfg,
      SourceDBClusterSnapshotIdentifier = snapshotName cfg\<rparr>"

text \<open>
  The catch block of the handler: status 500, the fixed message and the message of the
  caught error.
\<close>

definition createAndExport_failure :: "js_error \<Rightarrow> settlement" where
  "createAndExport_failure error =
     Fulfilled \<lparr>statusCode = 500,
       body = JSON_stringify (JObject
         [(''message'', JString ''Failed to create or export DB cluster snapshot.''),
          (''error'', JString (message error))])\<rparr>"

definition createAndExport_success :: "ExportDBClusterSnapshotToS3CommandOutput \<Rightarrow> settlement" where
  "createAndExport_success exportResult =
     Fulfilled \<lparr>statusCode = 200,
       body = JSON_stringify (JObject
         [(''message'', JString ''Aurora snapshot export to S3 initiated successfully.''),
          (''exportTaskIdentifier'',
           optional_string_value (result_ExportTaskIdentifier exportResult))])\<rparr>"

text \<open>
  The handler. The event is only logged and the context is not used; logging changes
  nothing the handler returns or sends. The three steps follow in the order of the
  source, each inside the one \<^verbatim>\<open>try\<close> block, so that a rejection or an exception in any of
  them runs the catch block and nothing after it. In the third step the argument of
  \<^verbatim>\<open>rdsClient.send\<close> is evaluated first: the export parameters are built, with the clock
  read, and \<^verbatim>\<open>new ExportDBClusterSnapshotToS3Command(exportParams)\<close> is evaluated on the
  imported binding. Its \<^verbatim>\<open>TypeError\<close> is thrown before \<^verbatim>\<open>send\<close> is called, so that no
  request leaves and the world stays as the wait left it.
\<close>

definition createAndExport_handler :: "'w runtime \<Rightarrow> environment \<Rightarrow> 'w \<Rightarrow> 'w invocation" where
  "createAndExport_handler rt env w0 =
     (let cfg = read_config env;
          create = CreateDBClusterSnapshotCommand (createSnapshotParams cfg);
          wait = WaitUntilDBClusterSnapshotAvailable waiterParams (waiterInput cfg)
      in case CreateDBClusterSnapshot rt (createSnapshotParams cfg) w0 of
           (Inl error, w1) \<Rightarrow>
             \<lparr>settled = createAndExport_failure error, sent = [create], world = w1\<rparr>
         | (Inr _, w1) \<Rightarrow>
            (case waitUntilDBClusterSnapshotAvailable rt waiterParams (waiterInput cfg) w1 of
               (Inl error, w2) \<Rightarrow>
                 \<lparr>settled = createAndExport_failure error, sent = [create, wait], world = w2\<rparr>
             | (Inr _, w2) \<Rightarrow>
                (case new_command (export_command_callee rt)
                        import_ExportDBClusterSnapshotToS3Command
                        (exportParams cfg (Date_now rt w2)) of
                   Inl error \<Rightarrow>
                     \<lparr>settled = createAndExport_failure error, sent = [create, wait], world = w2\<rparr>
                 | Inr export \<Rightarrow>
                    (case ExportDBClusterSnapshotToS3 rt (exportParams cfg (Date_now rt w2)) w2 of
                       (Inl error, w3) \<Rightarrow>
                         \<lparr>settled = createAndExport_failure error,
                          sent = [create, wait, export], world = w3\<rparr>
                     | (Inr exportResult, w3) \<Rightarrow>
                         \<lparr>settled = createAndExport_success exportResult,
                          sent = [create, wait, export], world = w3\<rparr>))))"

section \<open>The calendar of Date.prototype.toISOString\<close>

text \<open>
  A time value is a number of milliseconds since the epoch, 1 January 1970 UTC. The
  functions below are those of the language specification (Day, TimeWithinDay,
  DaysInYear, DayFromYear, TimeFromYear, YearFromTime, InLeapYear, DayWithinYear,
  MonthFromTime, DateFromTime, HourFromTime, MinFromTime, SecFromTime, msFromTime).
  Integer division rounds down, as \<^verbatim>\<open>floor\<close> does there.
\<close>

definition msPerDay :: int where
  "msPerDay = 86400000"

definition Day :: "int \<Rightarrow> int" where
  "Day t = t div msPerDay"

definition TimeWithinDay :: "int \<Rightarrow> int" where
  "TimeWithinDay t = t mod msPerDay"

definition DaysInYear :: "int \<Rightarrow> int" where
  "DaysInYear y =
     (if y mod 4 \<noteq> 0 then 365
      else if y mod 100 \<noteq> 0 then 366
      else if y mod 400 \<noteq> 0 then 365
      else 366)"

definition DayFromYear :: "int \<Rightarrow> int" where
  "DayFromYear y =
     365 * (y - 1970) + (y - 1969) div 4 - (y - 1901) div 100 + (y - 1601) div 400"

definition TimeFromYear :: "int \<Rightarrow> int" where
  "TimeFromYear y = msPerDay * DayFromYear y"

text \<open>
  \<^verbatim>\<open>YearFromTime(t)\<close> is the largest year \<open>y\<close> with \<open>TimeFromYear y \<le> t\<close>. It is computed by
  going up from a year that is not after it: a year has at most 366 days, which gives the
  start from 1970 on, and at least 365, which gives the start before 1970. That the
  result is that year is lemma \<open>YearFromTime_spec\<close> below. The two lemmas that come first
  are what the termination of the search needs.
\<close>

lemma div_succ:
  fixes x n :: int
  assumes "0 < n"
  shows "(x + 1) div n = x div n + (if (x + 1) mod n = 0 then 1 else 0)"
proof -
  define q r where "q = x div n" and "r = x mod n"
  have x: "x = n * q + r" and r: "0 \<le> r" "r < n"
    using assms by (simp_all add: q_def r_def)
  show ?thesis
  proof (cases "r + 1 = n")
    case True
    have eq: "x + 1 = n * (q + 1) + 0"
      using x True by (simp add: algebra_simps)
    have "(x + 1) div n = q + 1"
      by (rule int_div_pos_eq [OF eq]) (use assms in simp_all)
    moreover have "(x + 1) mod n = 0"
      by (rule int_mod_pos_eq [OF eq]) (use assms in simp_all)
    ultimately show ?thesis by (simp add: q_def)
  next
    case False
    have eq: "x + 1 = n * q + (r + 1)"
      using x by simp
    have lt: "r + 1 < n" using False r by simp
    have "(x + 1) div n = q"
      by (rule int_div_pos_eq [OF eq _ lt]) (use r in simp)
    moreover have "(x + 1) mod n = r + 1"
      by (rule int_mod_pos_eq [OF eq _ lt]) (use r in simp)
    ultimately show ?thesis using r by (simp add: q_def)
  qed
qed

lemma mod_shift4: "((y::int) - 1968) mod 4 = y mod 4"
  using mod_mult_self1 [of y "- 492" 4] by simp
lemma mod_shift100: "((y::int) - 1900) mod 100 = y mod 100"
  using mod_mult_self1 [of y "- 19" 100] by simp
lemma mod_shift400: "((y::int) - 1600) mod 400 = y mod 400"
  using mod_mult_self1 [of y "- 4" 400] by simp

lemma DayFromYear_Suc: "DayFromYear (y + 1) = DayFromYear y + DaysInYear y"
proof -
  have a: "(y + 1 - 1969) div 4 = (y - 1969) div 4 + (if y mod 4 = 0 then 1 else 0)"
    using div_succ [of 4 "y - 1969"] mod_shift4 [of y] by (simp add: algebra_simps)
  have b: "(y + 1 - 1901) div 100 = (y - 1901) div 100 + (if y mod 100 = 0 then 1 else 0)"
    using div_succ [of 100 "y - 1901"] mod_shift100 [of y] by (simp add: algebra_simps)
  have c: "(y + 1 - 1601) div 400 = (y - 1601) div 400 + (if y mod 400 = 0 then 1 else 0)"
    using div_succ [of 400 "y - 1601"] mod_shift400 [of y] by (simp add: algebra_simps)
  have d: "y mod 400 = 0 \<Longrightarrow> y mod 100 = 0"
    using mod_mod_cancel [of 100 400 y] by simp
  have e: "y mod 100 = 0 \<Longrightarrow> y mod 4 = 0"
    using mod_mod_cancel [of 4 100 y] by simp
  show ?thesis
    unfolding DayFromYear_def DaysInYear_def a b c using d e by auto
qed

lemma TimeFromYear_less_Suc: "TimeFromYear y < TimeFromYear (y + 1)"
  unfolding TimeFromYear_def msPerDay_def DayFromYear_Suc DaysInYear_def by simp

function year_search :: "int \<Rightarrow> int \<Rightarrow> int" where
  "year_search t y = (if TimeFromYear (y + 1) \<le> t then year_search t (y + 1) else y)"
  by pat_completeness auto
termination
proof (relation "measure (\<lambda>(t, y). nat (t - TimeFromYear (y + 1) + 1))")
  show "wf (measure (\<lambda>(t, y). nat (t - TimeFromYear (y + 1) + 1)))"
    by simp
next
  fix t y :: int
  assume "TimeFromYear (y + 1) \<le> t"
  moreover have "TimeFromYear (y + 1) < TimeFromYear (y + 1 + 1)"
    by (rule TimeFromYear_less_Suc)
  ultimately show "((t, y + 1), (t, y)) \<in> measure (\<lambda>(t, y). nat (t - TimeFromYear (y + 1) + 1))"
    by simp
qed

declare year_search.simps [simp del]

definition YearFromTime :: "int \<Rightarrow> int" where
  "YearFromTime t =
     year_search t (1970 + (if 0 \<le> t then Day t div 366 else Day t div 365))"

definition InLeapYear :: "int \<Rightarrow> int" where
  "InLeapYear t = (if DaysInYear (YearFromTime t) = 366 then 1 else 0)"

definition DayWithinYear :: "int \<Rightarrow> int" where
  "DayWithinYear t = Day t - DayFromYear (YearFromTime t)"

text \<open>Months are numbered from 0 (January); the day of the month from 1.\<close>

definition MonthFromTime :: "int \<Rightarrow> int" where
  "MonthFromTime t =
     (let d = DayWithinYear t; leap = InLeapYear t
      in if d < 31 then 0
         else if d < 59 + leap then 1
         else if d < 90 + leap then 2
         else if d < 120 + leap then 3
         else if d < 151 + leap then 4
         else if d < 181 + leap then 5
         else if d < 212 + leap then 6
         else if d < 243 + leap then 7
         else if d < 273 + leap then 8
         else if d < 304 + leap then 9
         else if d < 334 + leap then 10
         else 11)"

definition DateFromTime :: "int \<Rightarrow> int" where
  "DateFromTime t =
     (let d = DayWithinYear t; leap = InLeapYear t; m = MonthFromTime t
      in if m = 0 then d + 1
         else if m = 1 then d - 30
         else if m = 2 then d - 58 - leap
         else if m = 3 then d - 89 - leap
         else if m = 4 then d - 119 - leap
         else if m = 5 then d - 150 - leap
         else if m = 6 then d - 180 - leap
         else if m = 7 then d - 211 - leap
         else if m = 8 then d - 242 - leap
         else if m = 9 then d - 272 - leap
         else if m = 10 then d - 303 - leap
         else d - 333 - leap)"

definition HourFromTime :: "int \<Rightarrow> int" where
  "HourFromTime t = (t div 3600000) mod 24"

definition MinFromTime :: "int \<Rightarrow> int" where
  "MinFromTime t = (t div 60000) mod 60"

definition SecFromTime :: "int \<Rightarrow> int" where
  "SecFromTime t = (t div 1000) mod 60"

definition msFromTime :: "int \<Rightarrow> int" where
  "msFromTime t = t mod 1000"

text \<open>
  A number written in at least \<open>w\<close> decimal digits, with leading zeros, and the format
  \<^verbatim>\<open>YYYY-MM-DDTHH:mm:ss.sssZ\<close>; a year outside 0 to 9999 is written with its sign and six
  digits.
\<close>

definition pad_zero :: "nat \<Rightarrow> int \<Rightarrow> string" where
  "pad_zero w i =
     replicate (w - length (nat_to_decimal (nat i))) (CHR ''0'') @ nat_to_decimal (nat i)"

definition year_string :: "int \<Rightarrow> string" where
  "year_string y =
     (if 0 \<le> y \<and> y \<le> 9999 then pad_zero 4 y
      else if y < 0 then CHR ''-'' # pad_zero 6 (- y)
      else CHR ''+'' # pad_zero 6 y)"

definition toISOString :: "int \<Rightarrow> string" where
  "toISOString t =
     year_string (YearFromTime t) @ ''-'' @ pad_zero 2 (MonthFromTime t + 1) @ ''-''
       @ pad_zero 2 (DateFromTime t) @ ''T'' @ pad_zero 2 (HourFromTime t) @ '':''
       @ pad_zero 2 (MinFromTime t) @ '':'' @ pad_zero 2 (SecFromTime t) @ ''.''
       @ pad_zero 3 (msFromTime t) @ ''Z''"

section \<open>The start-export handler (src/unnamed/part_000)\<close>

text \<open>
  The four constants of the module are set from \<^verbatim>\<open>process.env\<close> when the module is loaded,
  each with the empty string in place of a variable that is unset or empty.
\<close>

record startExport_module =
  const_SourceArn :: string
  const_S3BucketName :: string
  const_IamRoleArn :: string
  const_KmsKeyId :: string

definition load_module :: "environment \<Rightarrow> startExport_module" where
  "load_module env =
     \<lparr>const_SourceArn = or_empty (env ''SOURCE_ARN''),
      const_S3BucketName = or_empty (env ''S3_BUCKET_NAME''),
      const_IamRoleArn = or_empty (env ''IAM_ROLE_ARN''),
      const_KmsKeyId = or_empty (env ''KMS_KEY_ID'')\<rparr>"

text \<open>
  The identifier: \<^verbatim>\<open>snapshot\<close> and the ISO string of the current time without the
  characters of the class \<^verbatim>\<open>[-T:.Z]\<close>.
\<close>

definition in_class :: "char \<Rightarrow> bool" where
  "in_class c = (c \<in> set ''-T:.Z'')"

definition exportTaskIdentifier :: "int \<Rightarrow> string" where
  "exportTaskIdentifier now =
     ''snapshot'' @ filter (\<lambda>c. \<not> in_class c) (toISOString now)"

definition params :: "startExport_module \<Rightarrow> int \<Rightarrow> StartExportTaskCommandInput" where
  "params m now =
     \<lparr>ExportTaskIdentifier = exportTaskIdentifier now,
      S3BucketName = Some (const_S3BucketName m),
      IamRoleArn = Some (const_IamRoleArn m),
      KmsKeyId = Some (const_KmsKeyId m),
      SourceArn = Some (const_SourceArn m)\<rparr>"

definition startExport_success :: "string \<Rightarrow> settlement" where
  "startExport_success identifier =
     Fulfilled \<lparr>statusCode = 200,
       body = JSON_stringify (JObject
         [(''message'', JString ''Export task started successfully''),
          (''exportTaskIdentifier'', JString identifier)])\<rparr>"

text \<open>The catch block: the caught error object itself goes under the key \<^verbatim>\<open>error\<close>.\<close>

definition startExport_failure :: "js_error \<Rightarrow> settlement" where
  "startExport_failure error =
     Fulfilled \<lparr>statusCode = 500,
       body = JSON_stringify (JObject
         [(''message'', JString ''Failed to start export task''),
          (''error'', error_value error)])\<rparr>"

text \<open>
  The handler sees the loaded module \<open>m\<close> and the environment \<open>env\<close> of the process at the
  time of the invocation; it reads the constants of \<open>m\<close> and never \<open>env\<close>. The identifier
  and the request are built before the \<^verbatim>\<open>try\<close> block, from the clock as the invocation
  starts; the one awaited call is inside it.
\<close>

definition startExport_handler ::
  "'w runtime \<Rightarrow> startExport_module \<Rightarrow> environment \<Rightarrow> 'w \<Rightarrow> 'w invocation" where
  "startExport_handler rt m env w0 =
     (let identifier = exportTaskIdentifier (Date_now rt w0);
          request = params m (Date_now rt w0)
      in case StartExportTask rt request w0 of
           (Inr _, w1) \<Rightarrow>
             \<lparr>settled = startExport_success identifier,
              sent = [StartExportTaskCommand request], world = w1\<rparr>
         | (Inl error, w1) \<Rightarrow>
             \<lparr>settled = startExport_failure error,
              sent = [StartExportTaskCommand request], world = w1\<rparr>)"

section \<open>Observing an invocation\<close>

text \<open>
  The kinds of request in a trace, the status code of a settled invocation, and the
  steps of the create, wait and export handler as the world answers them: the create
  request in the initial world, the wait in the world the create left, the export
  request built in the world the wait left, with the clock read there.
\<close>

fun is_create :: "rds_call \<Rightarrow> bool" where
  "is_create (CreateDBClusterSnapshotCommand _) = True"
| "is_create _ = False"

fun is_wait :: "rds_call \<Rightarrow> bool" where
  "is_wait (WaitUntilDBClusterSnapshotAvailable _ _) = True"
| "is_wait _ = False"

fun is_export :: "rds_call \<Rightarrow> bool" where
  "is_export (ExportDBClusterSnapshotToS3Command _) = True"
| "is_export _ = False"

fun status :: "settlement \<Rightarrow> nat option" where
  "status (Fulfilled r) = Some (statusCode r)"
| "status (Rejected _) = None"

definition create_step :: "'w runtime \<Rightarrow> environment \<Rightarrow> 'w \<Rightarrow> (js_error + js_value) \<times> 'w" where
  "create_step rt env w0 = CreateDBClusterSnapshot rt (createSnapshotParams (read_config env)) w0"

definition wait_step :: "'w runtime \<Rightarrow> environment \<Rightarrow> 'w \<Rightarrow> waiter_outcome \<times> 'w" where
  "wait_step rt env w0 =
     DBClusterSnapshotWaiter rt waiterParams (waiterInput (read_config env)) (snd (create_step rt env w0))"

definition export_request :: "'w runtime \<Rightarrow> environment \<Rightarrow> 'w \<Rightarrow> ExportDBClusterSnapshotToS3CommandInput" where
  "export_request rt env w0 = exportParams (read_config env) (Date_now rt (snd (wait_step rt env w0)))"

definition export_step ::
  "'w runtime \<Rightarrow> environment \<Rightarrow> 'w \<Rightarrow> (js_error + ExportDBClusterSnapshotToS3CommandOutput) \<times> 'w" where
  "export_step rt env w0 =
     ExportDBClusterSnapshotToS3 rt (export_request rt env w0) (snd (wait_step rt env w0))"

definition create_acknowledged :: "'w runtime \<Rightarrow> environment \<Rightarrow> 'w \<Rightarrow> bool" where
  "create_acknowledged rt env w0 = (\<not> isl (fst (create_step rt env w0)))"

definition snapshot_available :: "'w runtime \<Rightarrow> environment \<Rightarrow> 'w \<Rightarrow> bool" where
  "snapshot_available rt env w0 = (fst (wait_step rt env w0) = SUCCESS)"

definition export_accepted :: "'w runtime \<Rightarrow> environment \<Rightarrow> 'w \<Rightarrow> bool" where
  "export_accepted rt env w0 = (\<not> isl (fst (export_step rt env w0)))"

text \<open>
  The export command as the handler builds it in the world the wait left, and the answer
  \<open>export_step\<close> that the control plane would give to the export request there.
\<close>

definition export_command :: "'w runtime \<Rightarrow> environment \<Rightarrow> 'w \<Rightarrow> js_error + rds_call" where
  "export_command rt env w0 =
     new_command (export_command_callee rt) import_ExportDBClusterSnapshotToS3Command
       (export_request rt env w0)"

lemmas step_defs = create_step_def wait_step_def export_step_def export_request_def
  create_acknowledged_def snapshot_available_def export_accepted_def export_command_def

text \<open>
  The error the catch block of the create, wait and export handler receives, if any: that
  of the first step that fails. The one step of the start-export handler.
\<close>

definition createAndExport_caught :: "'w runtime \<Rightarrow> environment \<Rightarrow> 'w \<Rightarrow> js_error option" where
  "createAndExport_caught rt env w0 =
     (case fst (create_step rt env w0) of
        Inl e \<Rightarrow> Some e
      | Inr _ \<Rightarrow>
         (case waiter_settles (fst (wait_step rt env w0)) of
            Inl e \<Rightarrow> Some e
          | Inr _ \<Rightarrow>
             (case export_command rt env w0 of
                Inl e \<Rightarrow> Some e
              | Inr _ \<Rightarrow>
                 (case fst (export_step rt env w0) of Inl e \<Rightarrow> Some e | Inr _ \<Rightarrow> None))))"

definition start_step :: "'w runtime \<Rightarrow> startExport_module \<Rightarrow> 'w \<Rightarrow> (js_error + js_value) \<times> 'w" where
  "start_step rt m w0 = StartExportTask rt (params m (Date_now rt w0)) w0"



fun contains :: "string \<Rightarrow> string \<Rightarrow> bool" where
  "contains p [] = (p = [])"
| "contains p (c # cs) = (take (length p) (c # cs) = p \<or> contains p cs)"

fun body_contains :: "string \<Rightarrow> settlement \<Rightarrow> bool" where
  "body_contains p (Fulfilled r) = (case body r of None \<Rightarrow> False | Some b \<Rightarrow> contains p b)"
| "body_contains p (Rejected _) = False"

text \<open>Decimal digits, and the characters that \<^verbatim>\<open>QuoteJSONString\<close> copies unchanged.\<close>

definition is_digit :: "char \<Rightarrow> bool" where
  "is_digit c = (c \<in> set ''0123456789'')"

definition is_plain :: "char \<Rightarrow> bool" where
  "is_plain c = (quote_char c = [c])"

text \<open>
  For the proofs about the identifier: the day of the year on which a month starts
  (less one), the value of a digit character, and the form \<^verbatim>\<open>snapshot\<close> followed by a
  given number of digits.
\<close>

definition month_offset :: "int \<Rightarrow> int \<Rightarrow> int" where
  "month_offset m leap =
     (if m = 0 then - 1
      else if m = 1 then 30
      else if m = 2 then 58 + leap
      else if m = 3 then 89 + leap
      else if m = 4 then 119 + leap
      else if m = 5 then 150 + leap
      else if m = 6 then 180 + leap
      else if m = 7 then 211 + leap
      else if m = 8 then 242 + leap
      else if m = 9 then 272 + leap
      else if m = 10 then 303 + leap
      else 333 + leap)"

definition digit_value :: "char \<Rightarrow> nat" where
  "digit_value c = length (takeWhile (\<lambda>x. x \<noteq> c) ''0123456789'')"

definition snapshot_digits :: "nat \<Rightarrow> string \<Rightarrow> bool" where
  "snapshot_digits n s =
     (take 8 s = ''snapshot'' \<and> length (drop 8 s) = n \<and> list_all is_digit (drop 8 s))"

section \<open>Example worlds\<close>

text \<open>
  A world that counts the calls made to it and answers each kind of call with a fixed
  settlement; its clock starts at 2025-01-15T00:00:00.000Z and advances by a millisecond
  with every call, and its module is the CommonJS output of the TypeScript compiler. The
  environment \<open>example_env\<close> is that of the example scenario (cluster
  \<^verbatim>\<open>mycluster\<close>, snapshot \<^verbatim>\<open>snap1\<close>, no key); \<open>start_env\<close> is one for the start-export
  handler, and \<open>env_one\<close> and \<open>env_two\<close> differ in the source they name. The errors are
  the waiter's timeout and failure errors and a transport error, built by the constructor
  of \<^verbatim>\<open>Error\<close> with their message, and a service exception the SDK has no class for, whose message is
  assigned after its construction and so is enumerable.
\<close>

definition scripted_runtime ::
  "(js_error + js_value) \<Rightarrow> waiter_outcome \<Rightarrow>
   (js_error + ExportDBClusterSnapshotToS3CommandOutput) \<Rightarrow> (js_error + js_value) \<Rightarrow> nat runtime" where
  "scripted_runtime c w e s =
     \<lparr>Date_now = (\<lambda>n. 1736899200000 + int n),
      export_command_callee = ''client_rds_1.ExportDBClusterSnapshotToS3Command'',
      CreateDBClusterSnapshot = (\<lambda>_ n. (c, Suc n)),
      DBClusterSnapshotWaiter = (\<lambda>_ _ n. (w, Suc n)),
      ExportDBClusterSnapshotToS3 = (\<lambda>_ n. (e, Suc n)),
      StartExportTask = (\<lambda>_ n. (s, Suc n))\<rparr>"

definition example_env :: environment where
  "example_env =
     map_of [(''DB_CLUSTER_IDENTIFIER'', ''mycluster''), (''SNAPSHOT_NAME'', ''snap1''),
             (''S3_BUCKET_NAME'', ''bucket1''), (''IAM_ROLE_ARN'', ''arn:role'')]"

definition timeout_error :: js_error where
  "timeout_error =
     \<lparr>message = ''Waiter has timed out'', enumerable_message = False,
      properties = [(''name'', JString ''TimeoutError'')]\<rparr>"

definition waiter_failure :: js_error where
  \<open>waiter_failure =
     \<lparr>message = ''{"state":"FAILURE"}'', enumerable_message = False, properties = []\<rparr>\<close>

definition connection_timeout :: js_error where
  "connection_timeout =
     \<lparr>message = ''Connection timed out after 1000 ms'', enumerable_message = False,
      properties = [(''name'', JString ''TimeoutError'')]\<rparr>"

definition access_denied :: js_error where
  "access_denied =
     \<lparr>message = ''Access denied'', enumerable_message = True,
      properties =
        [(''name'', JString ''AccessDenied''), (''$fault'', JString ''client''),
         (''$metadata'', JObject
            [(''httpStatusCode'', JNumber 403), (''requestId'', JString ''r-1''),
             (''extendedRequestId'', JUndefined), (''attempts'', JNumber 1),
             (''totalRetryDelay'', JNumber 0)]),
         (''Type'', JString ''Sender''), (''Code'', JString ''AccessDenied'')]\<rparr>"

definition start_env :: environment where
  "start_env =
     map_of [(''SOURCE_ARN'', ''arn:aws:rds:eu-west-1:1:snapshot:snap1''),
             (''S3_BUCKET_NAME'', ''bucket1''), (''IAM_ROLE_ARN'', ''arn:role'')]"



text \<open>
  The worlds of the examples: the create request is rejected; the wait exceeds its ceiling,
  or sees the snapshot fail; the control plane would reject an export request; the start
  export task request is accepted, or rejected, with a service exception or with an error
  whose message is not enumerable; the control plane accepts every request, and would
  answer an export request with no identifier, with another identifier, or with the
  identifier of the request.
\<close>

definition rt_create_rejected :: "nat runtime" where
  "rt_create_rejected =
     scripted_runtime (Inl access_denied) SUCCESS (Inl access_denied) (Inr JNull)"

definition rt_wait_timeout :: "nat runtime" where
  "rt_wait_timeout =
     scripted_runtime (Inr JNull) (TIMEOUT timeout_error)
       (Inr \<lparr>result_ExportTaskIdentifier = None\<rparr>) (Inr JNull)"

definition rt_wait_failure :: "nat runtime" where
  "rt_wait_failure =
     scripted_runtime (Inr JNull) (FAILURE waiter_failure)
       (Inr \<lparr>result_ExportTaskIdentifier = None\<rparr>) (Inr JNull)"

definition rt_export_rejected :: "nat runtime" where
  "rt_export_rejected = scripted_runtime (Inr JNull) SUCCESS (Inl access_denied) (Inr JNull)"

definition rt_start_accepted :: "nat runtime" where
  "rt_start_accepted = scripted_runtime (Inr JNull) SUCCESS (Inl access_denied) (Inr JNull)"

definition rt_start_rejected :: "nat runtime" where
  "rt_start_rejected =
     scripted_runtime (Inr JNull) SUCCESS (Inl access_denied) (Inl access_denied)"

definition rt_start_unreachable :: "nat runtime" where
  "rt_start_unreachable =
     scripted_runtime (Inr JNull) SUCCESS (Inl access_denied) (Inl connection_timeout)"

definition rt_no_identifier :: "nat runtime" where
  "rt_no_identifier =
     scripted_runtime (Inr JNull) SUCCESS
       (Inr \<lparr>result_ExportTaskIdentifier = None\<rparr>) (Inr JNull)"

definition rt_other_identifier :: "nat runtime" where
  "rt_other_identifier =
     scripted_runtime (Inr JNull) SUCCESS
       (Inr \<lparr>result_ExportTaskIdentifier = Some ''task-7''\<rparr>) (Inr JNull)"

definition rt_same_identifier :: "nat runtime" where
  "rt_same_identifier =
     scripted_runtime (Inr JNull) SUCCESS
       (Inr \<lparr>result_ExportTaskIdentifier = Some ''snap1-export-1736899200002''\<rparr>) (Inr JNull)"

section \<open>The create, wait and export handler, case by case\<close>

lemma waiter_settles_Inr [simp]: "waiter_settles out = Inr u \<longleftrightarrow> out = SUCCESS"
  by (cases out) simp_all

lemma handler_create_failed:
  assumes "\<not> create_acknowledged rt env w0"
  shows "sent (createAndExport_handler rt env w0) =
           [CreateDBClusterSnapshotCommand (createSnapshotParams (read_config env))]"
    and "status (settled (createAndExport_handler rt env w0)) = Some 500"
    and "world (createAndExport_handler rt env w0) = snd (create_step rt env w0)"
  using assms
  by (auto simp: createAndExport_handler_def step_defs Let_def createAndExport_failure_def
      split: prod.splits sum.splits)

lemma handler_wait_failed:
  assumes "create_acknowledged rt env w0" "\<not> snapshot_available rt env w0"
  shows "sent (createAndExport_handler rt env w0) =
           [CreateDBClusterSnapshotCommand (createSnapshotParams (read_config env)),
            WaitUntilDBClusterSnapshotAvailable waiterParams (waiterInput (read_config env))]"
    and "status (settled (createAndExport_handler rt env w0)) = Some 500"
    and "world (createAndExport_handler rt env w0) = snd (wait_step rt env w0)"
  using assms
  by (auto simp: createAndExport_handler_def step_defs Let_def createAndExport_failure_def
      waitUntilDBClusterSnapshotAvailable_def
      split: prod.splits sum.splits waiter_outcome.splits)

lemma export_command_throws:
  "export_command rt env w0 =
     Inl (TypeError (export_command_callee rt @ '' is not a constructor''))"
  by (simp add: export_command_def new_command_def import_ExportDBClusterSnapshotToS3Command_def)

lemma handler_export_failed:
  assumes "create_acknowledged rt env w0" "snapshot_available rt env w0"
  shows "sent (createAndExport_handler rt env w0) =
           [CreateDBClusterSnapshotCommand (createSnapshotParams (read_config env)),
            WaitUntilDBClusterSnapshotAvailable waiterParams (waiterInput (read_config env))]"
    and "world (createAndExport_handler rt env w0) = snd (wait_step rt env w0)"
    and "settled (createAndExport_handler rt env w0) =
           createAndExport_failure (TypeError (export_command_callee rt @ '' is not a constructor''))"
  using assms
  by (auto simp: createAndExport_handler_def step_defs Let_def new_command_def
      import_ExportDBClusterSnapshotToS3Command_def
      waitUntilDBClusterSnapshotAvailable_def
      split: prod.splits sum.splits waiter_outcome.splits)

lemma createAndExport_status_500:
  "status (settled (createAndExport_handler rt env w0)) = Some 500"
proof (cases "create_acknowledged rt env w0")
  case False
  then show ?thesis by (rule handler_create_failed(2))
next
  case ack: True
  show ?thesis
  proof (cases "snapshot_available rt env w0")
    case False
    then show ?thesis using handler_wait_failed(2) [OF ack] by simp
  next
    case True
    then show ?thesis
      using handler_export_failed(3) [OF ack True] by (simp add: createAndExport_failure_def)
  qed
qed

lemma createAndExport_caught_settled:
  "createAndExport_caught rt env w0 = Some e \<Longrightarrow>
   settled (createAndExport_handler rt env w0) = createAndExport_failure e"
  by (auto simp: createAndExport_caught_def createAndExport_handler_def step_defs Let_def
      new_command_def import_ExportDBClusterSnapshotToS3Command_def
      waitUntilDBClusterSnapshotAvailable_def split: prod.splits sum.splits)


section \<open>Response bodies\<close>

lemma quote_message: \<open>QuoteJSONString ''message'' = ''"message"''\<close>
  by (simp add: QuoteJSONString_def quote_char_def)

lemma quote_error: \<open>QuoteJSONString ''error'' = ''"error"''\<close>
  by (simp add: QuoteJSONString_def quote_char_def)

lemma quote_exportTaskIdentifier:
  \<open>QuoteJSONString ''exportTaskIdentifier'' = ''"exportTaskIdentifier"''\<close>
  by (simp add: QuoteJSONString_def quote_char_def)

lemma quote_failed_B:
  \<open>QuoteJSONString ''Failed to create or export DB cluster snapshot.'' =
     ''"Failed to create or export DB cluster snapshot."''\<close>
  by (simp add: QuoteJSONString_def quote_char_def)

lemma quote_success_B:
  \<open>QuoteJSONString ''Aurora snapshot export to S3 initiated successfully.'' =
     ''"Aurora snapshot export to S3 initiated successfully."''\<close>
  by (simp add: QuoteJSONString_def quote_char_def)

lemma createAndExport_failure_body:
  \<open>createAndExport_failure e =
     Fulfilled \<lparr>statusCode = 500,
       body = Some (''{"message":"Failed to create or export DB cluster snapshot.","error":''
                     @ QuoteJSONString (message e) @ ''}'')\<rparr>\<close>
  by (simp add: createAndExport_failure_def JSON_stringify_def quote_message quote_error
      quote_failed_B)

lemma createAndExport_success_body:
  \<open>createAndExport_success out =
     Fulfilled \<lparr>statusCode = 200,
       body = Some (case result_ExportTaskIdentifier out of
                None \<Rightarrow> ''{"message":"Aurora snapshot export to S3 initiated successfully."}''
              | Some s \<Rightarrow>
                  ''{"message":"Aurora snapshot export to S3 initiated successfully.","exportTaskIdentifier":''
                    @ QuoteJSONString s @ ''}'')\<rparr>\<close>
  by (simp add: createAndExport_success_def JSON_stringify_def quote_message
      quote_exportTaskIdentifier quote_success_B optional_string_value_def split: option.splits)

lemma quote_failed_A:
  \<open>QuoteJSONString ''Failed to start export task'' = ''"Failed to start export task"''\<close>
  by (simp add: QuoteJSONString_def quote_char_def)

lemma quote_success_A:
  \<open>QuoteJSONString ''Export task started successfully'' = ''"Export task started successfully"''\<close>
  by (simp add: QuoteJSONString_def quote_char_def)

section \<open>Digits and the characters of the identifier\<close>

lemma is_digit_digit_char: "is_digit (digit_char d)"
  unfolding is_digit_def digit_char_def by (rule nth_mem) simp

lemma nat_to_decimal_digits: "list_all is_digit (nat_to_decimal n)"
proof (induction n rule: nat_to_decimal.induct)
  case (1 n)
  show ?case
    by (subst nat_to_decimal.simps) (use 1 in \<open>simp add: is_digit_digit_char\<close>)
qed

lemma nat_to_decimal_not_Nil: "nat_to_decimal n \<noteq> []"
  by (subst nat_to_decimal.simps) simp

lemma is_digit_zero: "is_digit CHR ''0''"
  by (simp add: is_digit_def)

lemma pad_zero_digits: "list_all is_digit (pad_zero w i)"
proof -
  have "list_all is_digit (replicate k CHR ''0'')" for k
    by (induction k) (simp_all add: is_digit_zero)
  then show ?thesis
    unfolding pad_zero_def by (simp add: nat_to_decimal_digits)
qed

lemma Number_toString_digits:
  "0 \<le> i \<Longrightarrow> Number_toString i \<noteq> [] \<and> list_all is_digit (Number_toString i)"
  by (simp add: Number_toString_def nat_to_decimal_not_Nil nat_to_decimal_digits)

lemma QuoteJSONString_plain:
  "list_all is_plain s \<Longrightarrow> QuoteJSONString s = CHR 0x22 # s @ [CHR 0x22]"
proof -
  assume "list_all is_plain s"
  then have "concat (map quote_char s) = s"
    by (induction s) (simp_all add: is_plain_def)
  then show ?thesis by (simp add: QuoteJSONString_def)
qed

lemma is_digit_plain: "is_digit c \<Longrightarrow> is_plain c"
  unfolding is_digit_def is_plain_def
  by (simp, elim disjE) (simp_all add: quote_char_def)

lemma filter_separators_digits:
  "list_all is_digit s \<Longrightarrow> filter (\<lambda>c. \<not> in_class c) s = s"
proof (induction s)
  case Nil
  show ?case by simp
next
  case (Cons c s)
  from Cons.prems have "is_digit c" by simp
  then have "\<not> in_class c"
    unfolding is_digit_def in_class_def by (simp, elim disjE) simp_all
  with Cons show ?case by simp
qed

lemma in_class_chars:
  "in_class CHR ''-''" "in_class CHR ''T''" "in_class CHR '':''" "in_class CHR ''.''"
  "in_class CHR ''Z''" "\<not> in_class CHR ''+''"
  by (simp_all add: in_class_def)

lemma filter_year_string:
  "filter (\<lambda>c. \<not> in_class c) (year_string y) =
     (if 0 \<le> y \<and> y \<le> 9999 then pad_zero 4 y
      else if y < 0 then pad_zero 6 (- y)
      else CHR ''+'' # pad_zero 6 y)"
  by (simp add: year_string_def filter_separators_digits pad_zero_digits in_class_chars)

lemma exportTaskIdentifier_fields:
  "exportTaskIdentifier t =
     ''snapshot'' @ filter (\<lambda>c. \<not> in_class c) (year_string (YearFromTime t))
       @ pad_zero 2 (MonthFromTime t + 1) @ pad_zero 2 (DateFromTime t)
       @ pad_zero 2 (HourFromTime t) @ pad_zero 2 (MinFromTime t) @ pad_zero 2 (SecFromTime t)
       @ pad_zero 3 (msFromTime t)"
  by (simp add: exportTaskIdentifier_def toISOString_def filter_separators_digits
      pad_zero_digits in_class_chars)

lemma is_plain_letters:
  "is_plain CHR ''s''" "is_plain CHR ''n''" "is_plain CHR ''a''" "is_plain CHR ''p''"
  "is_plain CHR ''h''" "is_plain CHR ''o''" "is_plain CHR ''t''" "is_plain CHR ''+''"
  by (simp_all add: is_plain_def quote_char_def)

lemma list_all_digit_plain: "list_all is_digit s \<Longrightarrow> list_all is_plain s"
  by (induction s) (simp_all add: is_digit_plain)

lemma exportTaskIdentifier_plain: "list_all is_plain (exportTaskIdentifier t)"
  unfolding exportTaskIdentifier_fields filter_year_string
  by (simp add: is_plain_letters list_all_digit_plain pad_zero_digits)

lemma exportTaskIdentifier_not_Nil: "exportTaskIdentifier t \<noteq> []"
  by (simp add: exportTaskIdentifier_def)

section \<open>The start-export handler, case by case\<close>

lemma startExport_success_body:
  \<open>startExport_success (exportTaskIdentifier t) =
     Fulfilled \<lparr>statusCode = 200,
       body = Some (''{"message":"Export task started successfully","exportTaskIdentifier":"''
                     @ exportTaskIdentifier t @ ''"}'')\<rparr>\<close>
  by (simp add: startExport_success_def JSON_stringify_def quote_message
      quote_exportTaskIdentifier quote_success_A
      QuoteJSONString_plain [OF exportTaskIdentifier_plain])

lemma startExport_failure_body:
  \<open>startExport_failure e =
     Fulfilled \<lparr>statusCode = 500,
       body = Some (''{"message":"Failed to start export task","error":{''
                     @ join_comma (SerializeJSONMembers (properties e) @
                         (if enumerable_message e
                          then [''"message":'' @ QuoteJSONString (message e)] else []))
                     @ ''}}'')\<rparr>\<close>
  by (simp add: startExport_failure_def JSON_stringify_def quote_message quote_error
      quote_failed_A error_value_def)

lemma join_comma_snoc:
  "join_comma (xs @ [x]) = (if xs = [] then [] else join_comma xs @ '','') @ x"
  by (induction xs rule: join_comma.induct) simp_all

lemma contains_prefix: "contains p (p @ b)"
  by (cases p; cases b) simp_all

lemma contains_append: "contains p (a @ p @ b)"
  by (induction a) (simp_all add: contains_prefix)

lemma startExport_failure_keeps_message:
  assumes "enumerable_message e"
  shows "body_contains (QuoteJSONString (message e)) (startExport_failure e)"
proof -
  have \<open>contains (QuoteJSONString (message e))
          ((''{"message":"Failed to start export task","error":{''
             @ (if SerializeJSONMembers (properties e) = [] then []
                else join_comma (SerializeJSONMembers (properties e)) @ '','')
             @ ''"message":'') @ QuoteJSONString (message e) @ ''}}'')\<close>
    by (rule contains_append)
  then show ?thesis
    using assms by (simp add: startExport_failure_body join_comma_snoc)
qed

lemma startExport_handler_cases:
  "sent (startExport_handler rt m env w0) = [StartExportTaskCommand (params m (Date_now rt w0))]"
  "world (startExport_handler rt m env w0) = snd (start_step rt m w0)"
  "settled (startExport_handler rt m env w0) =
     (case fst (start_step rt m w0) of
        Inr _ \<Rightarrow> startExport_success (exportTaskIdentifier (Date_now rt w0))
      | Inl error \<Rightarrow> startExport_failure error)"
  by (auto simp: startExport_handler_def start_step_def Let_def split: prod.splits sum.splits)

section \<open>Evaluation at the example worlds\<close>

lemma year_2025: "YearFromTime 1736899200000 = 2025"
  by (simp add: YearFromTime_def Day_def msPerDay_def year_search.simps TimeFromYear_def DayFromYear_def)

lemma fields_2025:
  "MonthFromTime 1736899200000 = 0" "DateFromTime 1736899200000 = 15"
  "HourFromTime 1736899200000 = 0" "MinFromTime 1736899200000 = 0"
  "SecFromTime 1736899200000 = 0" "msFromTime 1736899200000 = 0"
  by (simp_all add: MonthFromTime_def DateFromTime_def DayWithinYear_def InLeapYear_def year_2025
      Day_def msPerDay_def DayFromYear_def DaysInYear_def HourFromTime_def MinFromTime_def
      SecFromTime_def msFromTime_def)

lemma replicate_numeral: "replicate (numeral k) x = x # replicate (pred_numeral k) x"
  by (simp add: numeral_eq_Suc)

lemma iso_2025: "toISOString 1736899200000 = ''2025-01-15T00:00:00.000Z''"
  by (simp add: toISOString_def year_2025 fields_2025 year_string_def pad_zero_def
      nat_to_decimal.simps digit_char_def replicate_numeral)

lemma id_2025: "exportTaskIdentifier 1736899200000 = ''snapshot20250115000000000''"
  by (simp add: exportTaskIdentifier_def iso_2025 in_class_def)

text \<open>
  The rendering of numbers, of an unset variable in a template literal and of the
  characters that \<^verbatim>\<open>JSON.stringify\<close> escapes, at examples: a double quote, a backslash, the
  five control characters with a short escape, two more control characters, a letter and
  the delete character.
\<close>

lemma Number_toString_examples:
  "Number_toString 1736899200002 = ''1736899200002''"
  "Number_toString 0 = ''0''"
  "Number_toString (- 42) = ''-42''"
  by (simp_all add: Number_toString_def nat_to_decimal.simps digit_char_def)

lemma ExportTaskIdentifier_examples:
  "ExportTaskIdentifier (exportParams (read_config example_env) 1736899200002)
     = ''snap1-export-1736899200002''"
  "ExportTaskIdentifier (exportParams (read_config Map.empty) 7) = ''undefined-export-7''"
  by (simp_all add: exportParams_def read_config_def example_env_def template_string_def
      Number_toString_def nat_to_decimal.simps digit_char_def)

lemma QuoteJSONString_examples:
  "QuoteJSONString
     [CHR 0x22, CHR 0x5C, CHR 0x08, CHR 0x09, CHR 0x0A, CHR 0x0C, CHR 0x0D, CHR 0x01, CHR 0x1F,
      CHR ''a'', CHR 0x7F]
   = [CHR 0x22] @ [CHR 0x5C, CHR 0x22] @ [CHR 0x5C, CHR 0x5C] @ CHR 0x5C # ''b''
     @ CHR 0x5C # ''t'' @ CHR 0x5C # ''n'' @ CHR 0x5C # ''f'' @ CHR 0x5C # ''r''
     @ CHR 0x5C # ''u0001'' @ CHR 0x5C # ''u001f'' @ [CHR ''a'', CHR 0x7F] @ [CHR 0x22]"
  by (simp add: QuoteJSONString_def quote_char_def hex_char_def)

lemma or_empty_examples:
  "or_empty None = []" "or_empty (Some []) = []" "or_empty (Some ''arn:one'') = ''arn:one''"
  by (simp_all add: or_empty_def)

lemmas rt_defs = rt_create_rejected_def rt_wait_timeout_def rt_wait_failure_def
  rt_export_rejected_def rt_start_accepted_def rt_start_rejected_def rt_start_unreachable_def
  rt_no_identifier_def rt_other_identifier_def rt_same_identifier_def

lemmas run_defs = createAndExport_handler_def step_defs scripted_runtime_def example_env_def rt_defs
  read_config_def createSnapshotParams_def waiterParams_def waiterInput_def exportParams_def
  waitUntilDBClusterSnapshotAvailable_def createAndExport_failure_def
  createAndExport_success_def new_command_def import_ExportDBClusterSnapshotToS3Command_def
  TypeError_def Let_def

lemmas start_defs = startExport_handler_def start_step_def scripted_runtime_def start_env_def rt_defs
  load_module_def params_def or_empty_def startExport_success_def startExport_failure_def
  error_value_def Let_def

section \<open>The year of a time value\<close>

lemma mult_le_iff_le_div:
  fixes k a t :: int
  assumes "0 < k"
  shows "k * a \<le> t \<longleftrightarrow> a \<le> t div k"
proof
  assume "k * a \<le> t"
  then have "(k * a) div k \<le> t div k"
    using assms by (intro zdiv_mono1) simp_all
  then show "a \<le> t div k" using assms by simp
next
  assume "a \<le> t div k"
  then have "k * a \<le> k * (t div k)"
    using assms by (simp add: mult_left_mono)
  also have "\<dots> \<le> t"
    using mult_div_mod_eq [of k t] pos_mod_sign [OF assms, of t] by linarith
  finally show "k * a \<le> t" .
qed

lemma TimeFromYear_le_iff: "TimeFromYear y \<le> t \<longleftrightarrow> DayFromYear y \<le> Day t"
  unfolding TimeFromYear_def Day_def msPerDay_def
  by (rule mult_le_iff_le_div) simp

lemma DaysInYear_bounds: "365 \<le> DaysInYear y" "DaysInYear y \<le> 366"
  by (simp_all add: DaysInYear_def)

lemma DayFromYear_1970: "DayFromYear 1970 = 0"
  by (simp add: DayFromYear_def)

lemma DayFromYear_upper: "DayFromYear (1970 + int k) \<le> 366 * int k"
proof (induction k)
  case 0
  show ?case by (simp add: DayFromYear_1970)
next
  case (Suc k)
  have "DayFromYear (1970 + int (Suc k)) = DayFromYear (1970 + int k + 1)"
    by (simp add: algebra_simps)
  also have "\<dots> = DayFromYear (1970 + int k) + DaysInYear (1970 + int k)"
    by (rule DayFromYear_Suc)
  finally show ?case
    using Suc DaysInYear_bounds(2) [of "1970 + int k"] by simp
qed

lemma DayFromYear_mono_nat: "DayFromYear y \<le> DayFromYear (y + int k)"
proof (induction k)
  case 0
  show ?case by simp
next
  case (Suc k)
  have "DayFromYear (y + int (Suc k)) = DayFromYear (y + int k + 1)"
    by (simp add: algebra_simps)
  also have "\<dots> = DayFromYear (y + int k) + DaysInYear (y + int k)"
    by (rule DayFromYear_Suc)
  finally show ?case
    using Suc DaysInYear_bounds(1) [of "y + int k"] by simp
qed

lemma DayFromYear_mono: "y \<le> y' \<Longrightarrow> DayFromYear y \<le> DayFromYear y'"
  using DayFromYear_mono_nat [of y "nat (y' - y)"] by simp

lemma year_search_spec:
  "TimeFromYear y \<le> t \<Longrightarrow>
     TimeFromYear (year_search t y) \<le> t \<and> t < TimeFromYear (year_search t y + 1)
     \<and> y \<le> year_search t y"
proof (induction t y rule: year_search.induct)
  case (1 t y)
  show ?case
  proof (cases "TimeFromYear (y + 1) \<le> t")
    case True
    then have "TimeFromYear (year_search t (y + 1)) \<le> t \<and>
        t < TimeFromYear (year_search t (y + 1) + 1) \<and> y + 1 \<le> year_search t (y + 1)"
      by (rule "1.IH" [OF True])
    moreover have "year_search t y = year_search t (y + 1)"
      using True by (subst year_search.simps) simp
    ultimately show ?thesis by simp
  next
    case False
    then have "year_search t y = y"
      by (subst year_search.simps) simp
    with False "1.prems" show ?thesis by simp
  qed
qed

lemma DayFromYear_before: "DayFromYear (1970 - int k) \<le> - (365 * int k)"
proof (induction k)
  case 0
  show ?case by (simp add: DayFromYear_1970)
next
  case (Suc k)
  have "DayFromYear (1970 - int k) = DayFromYear (1970 - int (Suc k) + 1)"
    by (simp add: algebra_simps)
  also have "\<dots> = DayFromYear (1970 - int (Suc k)) + DaysInYear (1970 - int (Suc k))"
    by (rule DayFromYear_Suc)
  finally show ?case
    using Suc DaysInYear_bounds(1) [of "1970 - int (Suc k)"] by simp
qed

lemma year_start_ok:
  "TimeFromYear (1970 + (if 0 \<le> t then Day t div 366 else Day t div 365)) \<le> t"
proof (cases "0 \<le> t")
  case True
  have d: "0 \<le> Day t"
    using True by (simp add: Day_def msPerDay_def pos_imp_zdiv_nonneg_iff)
  define k where "k = nat (Day t div 366)"
  have k: "int k = Day t div 366"
    using d by (simp add: k_def pos_imp_zdiv_nonneg_iff)
  have "DayFromYear (1970 + int k) \<le> 366 * int k"
    by (rule DayFromYear_upper)
  also have "\<dots> \<le> Day t"
    unfolding k using mult_le_iff_le_div [of 366 "Day t div 366" "Day t"] by simp
  finally show ?thesis
    using True by (simp add: TimeFromYear_le_iff k)
next
  case False
  have d: "Day t < 0"
    using False by (simp add: Day_def msPerDay_def pos_imp_zdiv_neg_iff)
  define k where "k = nat (- (Day t div 365))"
  have k: "int k = - (Day t div 365)"
    using d by (simp add: k_def pos_imp_zdiv_neg_iff)
  have "DayFromYear (1970 - int k) \<le> - (365 * int k)"
    by (rule DayFromYear_before)
  also have "\<dots> = 365 * (Day t div 365)"
    by (simp add: k)
  also have "\<dots> \<le> Day t"
    using mult_le_iff_le_div [of 365 "Day t div 365" "Day t"] by simp
  finally show ?thesis
    using False by (simp add: TimeFromYear_le_iff k)
qed

lemma YearFromTime_spec:
  shows "DayFromYear (YearFromTime t) \<le> Day t"
    and "Day t < DayFromYear (YearFromTime t + 1)"
proof -
  note s = year_search_spec [OF year_start_ok [of t]]
  show "DayFromYear (YearFromTime t) \<le> Day t"
    using s by (simp add: YearFromTime_def TimeFromYear_le_iff)
  show "Day t < DayFromYear (YearFromTime t + 1)"
    using s by (simp add: YearFromTime_def TimeFromYear_le_iff not_le [symmetric])
qed

lemma YearFromTime_lower:
  assumes "- 62167219200000 \<le> t"
  shows "0 \<le> YearFromTime t"
proof (rule ccontr)
  assume "\<not> 0 \<le> YearFromTime t"
  then have "YearFromTime t + 1 \<le> 0" by simp
  then have "DayFromYear (YearFromTime t + 1) \<le> DayFromYear 0"
    by (rule DayFromYear_mono)
  with YearFromTime_spec(2) [of t] have "\<not> DayFromYear 0 \<le> Day t"
    by simp
  then have "\<not> TimeFromYear 0 \<le> t"
    by (simp add: TimeFromYear_le_iff)
  moreover have "TimeFromYear 0 = - 62167219200000"
    by (simp add: TimeFromYear_def DayFromYear_def msPerDay_def)
  ultimately show False using assms by simp
qed

lemma YearFromTime_upper:
  assumes "t < 253402300800000"
  shows "YearFromTime t \<le> 9999"
proof (rule ccontr)
  assume "\<not> YearFromTime t \<le> 9999"
  then have "10000 \<le> YearFromTime t" by simp
  then have "DayFromYear 10000 \<le> DayFromYear (YearFromTime t)"
    by (rule DayFromYear_mono)
  also have "\<dots> \<le> Day t"
    by (rule YearFromTime_spec(1))
  finally have "TimeFromYear 10000 \<le> t"
    by (simp add: TimeFromYear_le_iff)
  moreover have "TimeFromYear 10000 = 253402300800000"
    by (simp add: TimeFromYear_def DayFromYear_def msPerDay_def)
  ultimately show False using assms by simp
qed

lemma DayWithinYear_range:
  shows "0 \<le> DayWithinYear t" and "DayWithinYear t < 365 + InLeapYear t"
proof -
  show "0 \<le> DayWithinYear t"
    using YearFromTime_spec(1) [of t] by (simp add: DayWithinYear_def)
  have "DaysInYear (YearFromTime t) = 365 + InLeapYear t"
    by (simp add: InLeapYear_def DaysInYear_def)
  then show "DayWithinYear t < 365 + InLeapYear t"
    using YearFromTime_spec(2) [of t] DayFromYear_Suc [of "YearFromTime t"]
    by (simp add: DayWithinYear_def)
qed

section \<open>The fields of a time value determine it\<close>

lemma InLeapYear_cases: "InLeapYear t = 0 \<or> InLeapYear t = 1"
  by (simp add: InLeapYear_def)

lemma MonthFromTime_range: "0 \<le> MonthFromTime t" "MonthFromTime t \<le> 11"
  by (simp_all add: MonthFromTime_def Let_def)

lemma DateFromTime_range:
  shows "1 \<le> DateFromTime t" and "DateFromTime t \<le> 31"
proof -
  define d where "d = DayWithinYear t"
  define l where "l = InLeapYear t"
  have r: "0 \<le> d" "d < 365 + l" "l = 0 \<or> l = 1"
    using DayWithinYear_range [of t] InLeapYear_cases [of t] by (simp_all add: d_def l_def)
  have m: "MonthFromTime t =
     (if d < 31 then 0 else if d < 59 + l then 1 else if d < 90 + l then 2
      else if d < 120 + l then 3 else if d < 151 + l then 4 else if d < 181 + l then 5
      else if d < 212 + l then 6 else if d < 243 + l then 7 else if d < 273 + l then 8
      else if d < 304 + l then 9 else if d < 334 + l then 10 else 11)"
    by (simp add: MonthFromTime_def Let_def d_def l_def)
  have dt: "DateFromTime t = d - month_offset (MonthFromTime t) l"
    by (simp add: DateFromTime_def month_offset_def Let_def d_def l_def)
  show "1 \<le> DateFromTime t"
    unfolding dt m using r by (auto simp: month_offset_def)
  show "DateFromTime t \<le> 31"
    unfolding dt m using r by (auto simp: month_offset_def)
qed

lemma time_fields_range:
  "0 \<le> HourFromTime t" "HourFromTime t < 24" "0 \<le> MinFromTime t" "MinFromTime t < 60"
  "0 \<le> SecFromTime t" "SecFromTime t < 60" "0 \<le> msFromTime t" "msFromTime t < 1000"
  by (simp_all add: HourFromTime_def MinFromTime_def SecFromTime_def msFromTime_def)

lemma TimeWithinDay_fields:
  "TimeWithinDay t =
     3600000 * HourFromTime t + 60000 * MinFromTime t + 1000 * SecFromTime t + msFromTime t"
proof -
  have a: "t mod (1000 * 60) = 1000 * (t div 1000 mod 60) + t mod 1000"
    by (rule zmod_zmult2_eq) simp
  have b: "t mod (60000 * 60) = 60000 * (t div 60000 mod 60) + t mod 60000"
    by (rule zmod_zmult2_eq) simp
  have c: "t mod (3600000 * 24) = 3600000 * (t div 3600000 mod 24) + t mod 3600000"
    by (rule zmod_zmult2_eq) simp
  show ?thesis
    using a b c
    by (simp add: TimeWithinDay_def msPerDay_def HourFromTime_def MinFromTime_def
        SecFromTime_def msFromTime_def)
qed

lemma time_from_fields:
  "t = 86400000 *
         (DayFromYear (YearFromTime t) + DateFromTime t
            + month_offset (MonthFromTime t) (if DaysInYear (YearFromTime t) = 366 then 1 else 0))
       + 3600000 * HourFromTime t + 60000 * MinFromTime t + 1000 * SecFromTime t + msFromTime t"
proof -
  have "t = msPerDay * Day t + TimeWithinDay t"
    by (simp add: Day_def TimeWithinDay_def)
  moreover have "Day t = DayFromYear (YearFromTime t) + DayWithinYear t"
    by (simp add: DayWithinYear_def)
  moreover have "DayWithinYear t =
      DateFromTime t + month_offset (MonthFromTime t) (if DaysInYear (YearFromTime t) = 366 then 1 else 0)"
    by (simp add: DateFromTime_def month_offset_def Let_def InLeapYear_def)
  ultimately show ?thesis
    using TimeWithinDay_fields [of t] by (simp add: msPerDay_def)
qed

lemma fields_determine_time:
  assumes "YearFromTime t1 = YearFromTime t2" "MonthFromTime t1 = MonthFromTime t2"
    "DateFromTime t1 = DateFromTime t2" "HourFromTime t1 = HourFromTime t2"
    "MinFromTime t1 = MinFromTime t2" "SecFromTime t1 = SecFromTime t2"
    "msFromTime t1 = msFromTime t2"
  shows "t1 = t2"
  using time_from_fields [of t1] time_from_fields [of t2] assms by simp

section \<open>Padded numbers digit by digit\<close>

lemma digit_value_digit_char: "d < 10 \<Longrightarrow> digit_value (digit_char d) = d"
proof -
  assume "d < 10"
  then consider "d < 5" | "5 \<le> d" "d < 10"
    by linarith
  then show ?thesis
  proof cases
    case 1
    then consider "d = 0" | "d = 1" | "d = 2" | "d = 3" | "d = 4"
      by linarith
    then show ?thesis
      by cases (simp_all add: digit_value_def digit_char_def)
  next
    case 2
    then consider "d = 5" | "d = 6" | "d = 7" | "d = 8" | "d = 9"
      by linarith
    then show ?thesis
      by cases (simp_all add: digit_value_def digit_char_def)
  qed
qed

lemma digit_char_inj:
  assumes "a < 10" "b < 10" "digit_char a = digit_char b"
  shows "a = b"
proof -
  have "a = digit_value (digit_char a)"
    using assms(1) by (simp only: digit_value_digit_char)
  also have "\<dots> = digit_value (digit_char b)"
    by (simp only: assms(3))
  also have "\<dots> = b"
    using assms(2) by (simp only: digit_value_digit_char)
  finally show ?thesis .
qed

lemma nat_to_decimal_1: "n < 10 \<Longrightarrow> nat_to_decimal n = [digit_char n]"
  by (subst nat_to_decimal.simps) simp

lemma nat_to_decimal_2:
  "10 \<le> n \<Longrightarrow> n < 100 \<Longrightarrow> nat_to_decimal n = [digit_char (n div 10), digit_char (n mod 10)]"
  by (subst nat_to_decimal.simps) (simp add: nat_to_decimal_1)

lemma nat_to_decimal_3:
  "100 \<le> n \<Longrightarrow> n < 1000 \<Longrightarrow>
     nat_to_decimal n = [digit_char (n div 100), digit_char (n div 10 mod 10), digit_char (n mod 10)]"
proof -
  assume n: "100 \<le> n" "n < 1000"
  have d: "n div 10 div 10 = n div 100"
    using div_mult2_eq [of n 10 10] by simp
  show ?thesis
    using n by (subst nat_to_decimal.simps) (simp add: nat_to_decimal_2 d)
qed

lemma nat_to_decimal_4:
  "1000 \<le> n \<Longrightarrow> n < 10000 \<Longrightarrow>
     nat_to_decimal n =
       [digit_char (n div 1000), digit_char (n div 100 mod 10), digit_char (n div 10 mod 10),
        digit_char (n mod 10)]"
proof -
  assume n: "1000 \<le> n" "n < 10000"
  have d: "n div 10 div 100 = n div 1000" "n div 10 div 10 = n div 100"
    using div_mult2_eq [of n 10 100] div_mult2_eq [of n 10 10] by simp_all
  show ?thesis
    using n by (subst nat_to_decimal.simps) (simp add: nat_to_decimal_3 d)
qed

lemma digit_char_0: "digit_char 0 = CHR ''0''"
  by (simp add: digit_char_def)

lemma pad_zero_2:
  assumes "0 \<le> i" "i < 100"
  shows "pad_zero 2 i = [digit_char (nat i div 10), digit_char (nat i mod 10)]"
proof (cases "nat i < 10")
  case True
  then show ?thesis
    by (simp add: pad_zero_def nat_to_decimal_1 digit_char_0)
next
  case False
  then show ?thesis
    using assms by (simp add: pad_zero_def nat_to_decimal_2)
qed

lemma pad_zero_3:
  assumes "0 \<le> i" "i < 1000"
  shows "pad_zero 3 i =
    [digit_char (nat i div 100), digit_char (nat i div 10 mod 10), digit_char (nat i mod 10)]"
proof -
  consider "nat i < 10" | "10 \<le> nat i" "nat i < 100" | "100 \<le> nat i" "nat i < 1000"
    using assms by linarith
  then show ?thesis
  proof cases
    case 1
    then show ?thesis
      by (simp add: pad_zero_def nat_to_decimal_1 digit_char_0 replicate_numeral)
  next
    case 2
    then show ?thesis
      by (simp add: pad_zero_def nat_to_decimal_2 digit_char_0 replicate_numeral)
  next
    case 3
    then show ?thesis
      by (simp add: pad_zero_def nat_to_decimal_3)
  qed
qed

lemma pad_zero_4:
  assumes "0 \<le> i" "i < 10000"
  shows "pad_zero 4 i =
    [digit_char (nat i div 1000), digit_char (nat i div 100 mod 10),
     digit_char (nat i div 10 mod 10), digit_char (nat i mod 10)]"
proof -
  consider "nat i < 10" | "10 \<le> nat i" "nat i < 100" | "100 \<le> nat i" "nat i < 1000"
    | "1000 \<le> nat i" "nat i < 10000"
    using assms by linarith
  then show ?thesis
  proof cases
    case 1
    then show ?thesis
      by (simp add: pad_zero_def nat_to_decimal_1 digit_char_0 replicate_numeral)
  next
    case 2
    then show ?thesis
      by (simp add: pad_zero_def nat_to_decimal_2 digit_char_0 replicate_numeral)
  next
    case 3
    then show ?thesis
      by (simp add: pad_zero_def nat_to_decimal_3 digit_char_0 replicate_numeral)
  next
    case 4
    then show ?thesis
      by (simp add: pad_zero_def nat_to_decimal_4)
  qed
qed

lemma div_mod_10_eq:
  fixes m n :: nat
  assumes "m div 10 = n div 10" "m mod 10 = n mod 10"
  shows "m = n"
proof -
  have "m = m div 10 * 10 + m mod 10"
    by (simp only: div_mult_mod_eq)
  also have "\<dots> = n div 10 * 10 + n mod 10"
    by (simp only: assms)
  also have "\<dots> = n"
    by (simp only: div_mult_mod_eq)
  finally show ?thesis .
qed

lemma div_10_10: "n div 10 div 10 = n div (100::nat)"
  using div_mult2_eq [of n 10 10] by simp

lemma div_100_10: "n div 100 div 10 = n div (1000::nat)"
  using div_mult2_eq [of n 100 10] by simp

lemma pad_zero_2_inj:
  assumes "0 \<le> a" "a < 100" "0 \<le> b" "b < 100" "pad_zero 2 a = pad_zero 2 b"
  shows "a = b"
proof -
  have e: "digit_char (nat a div 10) = digit_char (nat b div 10)"
      "digit_char (nat a mod 10) = digit_char (nat b mod 10)"
    using assms by (simp_all add: pad_zero_2)
  have 1: "nat a div 10 = nat b div 10"
    using assms(1-4) by (intro digit_char_inj [OF _ _ e(1)]) simp_all
  have 2: "nat a mod 10 = nat b mod 10"
    by (intro digit_char_inj [OF _ _ e(2)]) simp_all
  have "nat a = nat b"
    using 1 2 by (rule div_mod_10_eq)
  then show ?thesis using assms(1,3) by simp
qed

lemma pad_zero_3_inj:
  assumes "0 \<le> a" "a < 1000" "0 \<le> b" "b < 1000" "pad_zero 3 a = pad_zero 3 b"
  shows "a = b"
proof -
  have e: "digit_char (nat a div 100) = digit_char (nat b div 100)"
      "digit_char (nat a div 10 mod 10) = digit_char (nat b div 10 mod 10)"
      "digit_char (nat a mod 10) = digit_char (nat b mod 10)"
    using assms by (simp_all add: pad_zero_3)
  have 1: "nat a div 10 div 10 = nat b div 10 div 10"
    unfolding div_10_10
    using assms(1-4) by (intro digit_char_inj [OF _ _ e(1)]) simp_all
  have 2: "nat a div 10 mod 10 = nat b div 10 mod 10"
    by (intro digit_char_inj [OF _ _ e(2)]) simp_all
  have 3: "nat a mod 10 = nat b mod 10"
    by (intro digit_char_inj [OF _ _ e(3)]) simp_all
  have "nat a div 10 = nat b div 10"
    using 1 2 by (rule div_mod_10_eq)
  then have "nat a = nat b"
    using 3 by (rule div_mod_10_eq)
  then show ?thesis using assms(1,3) by simp
qed

lemma pad_zero_4_inj:
  assumes "0 \<le> a" "a < 10000" "0 \<le> b" "b < 10000" "pad_zero 4 a = pad_zero 4 b"
  shows "a = b"
proof -
  have e: "digit_char (nat a div 1000) = digit_char (nat b div 1000)"
      "digit_char (nat a div 100 mod 10) = digit_char (nat b div 100 mod 10)"
      "digit_char (nat a div 10 mod 10) = digit_char (nat b div 10 mod 10)"
      "digit_char (nat a mod 10) = digit_char (nat b mod 10)"
    using assms by (simp_all add: pad_zero_4)
  have 1: "nat a div 10 div 10 div 10 = nat b div 10 div 10 div 10"
    unfolding div_10_10 div_100_10
    using assms(1-4) by (intro digit_char_inj [OF _ _ e(1)]) simp_all
  have 2: "nat a div 10 div 10 mod 10 = nat b div 10 div 10 mod 10"
    unfolding div_10_10
    by (intro digit_char_inj [OF _ _ e(2)]) simp_all
  have 3: "nat a div 10 mod 10 = nat b div 10 mod 10"
    by (intro digit_char_inj [OF _ _ e(3)]) simp_all
  have 4: "nat a mod 10 = nat b mod 10"
    by (intro digit_char_inj [OF _ _ e(4)]) simp_all
  have "nat a div 10 div 10 = nat b div 10 div 10"
    using 1 2 by (rule div_mod_10_eq)
  then have "nat a div 10 = nat b div 10"
    using 3 by (rule div_mod_10_eq)
  then have "nat a = nat b"
    using 4 by (rule div_mod_10_eq)
  then show ?thesis using assms(1,3) by simp
qed

section \<open>The identifier of the start-export handler\<close>

lemma pad_zero_lengths:
  "0 \<le> i \<Longrightarrow> i < 100 \<Longrightarrow> length (pad_zero 2 i) = 2"
  "0 \<le> i \<Longrightarrow> i < 1000 \<Longrightarrow> length (pad_zero 3 i) = 3"
  "0 \<le> i \<Longrightarrow> i < 10000 \<Longrightarrow> length (pad_zero 4 i) = 4"
  by (simp_all add: pad_zero_2 pad_zero_3 pad_zero_4)

lemma exportTaskIdentifier_in_range:
  assumes "- 62167219200000 \<le> t" "t < 253402300800000"
  shows "exportTaskIdentifier t =
     ''snapshot'' @ pad_zero 4 (YearFromTime t)
       @ pad_zero 2 (MonthFromTime t + 1) @ pad_zero 2 (DateFromTime t)
       @ pad_zero 2 (HourFromTime t) @ pad_zero 2 (MinFromTime t) @ pad_zero 2 (SecFromTime t)
       @ pad_zero 3 (msFromTime t)"
proof -
  have "0 \<le> YearFromTime t \<and> YearFromTime t \<le> 9999"
    using YearFromTime_lower [OF assms(1)] YearFromTime_upper [OF assms(2)] by simp
  then have y: "filter (\<lambda>c. \<not> in_class c) (year_string (YearFromTime t)) =
      pad_zero 4 (YearFromTime t)"
    by (simp add: filter_year_string)
  show ?thesis
    by (simp only: exportTaskIdentifier_fields y)
qed

lemma fields_in_range:
  assumes "- 62167219200000 \<le> t" "t < 253402300800000"
  shows "0 \<le> YearFromTime t" "YearFromTime t < 10000"
    "0 \<le> MonthFromTime t + 1" "MonthFromTime t + 1 < 100"
    "0 \<le> DateFromTime t" "DateFromTime t < 100"
    "0 \<le> HourFromTime t" "HourFromTime t < 100"
    "0 \<le> MinFromTime t" "MinFromTime t < 100"
    "0 \<le> SecFromTime t" "SecFromTime t < 100"
    "0 \<le> msFromTime t" "msFromTime t < 1000"
  using YearFromTime_lower [OF assms(1)] YearFromTime_upper [OF assms(2)]
    MonthFromTime_range [of t] DateFromTime_range [of t] time_fields_range [of t]
  by linarith+

lemma exportTaskIdentifier_17:
  assumes "- 62167219200000 \<le> t" "t < 253402300800000"
  shows "snapshot_digits 17 (exportTaskIdentifier t)"
proof -
  note r = fields_in_range [OF assms]
  have len: "length (pad_zero 4 (YearFromTime t)) = 4"
    "length (pad_zero 2 (MonthFromTime t + 1)) = 2" "length (pad_zero 2 (DateFromTime t)) = 2"
    "length (pad_zero 2 (HourFromTime t)) = 2" "length (pad_zero 2 (MinFromTime t)) = 2"
    "length (pad_zero 2 (SecFromTime t)) = 2" "length (pad_zero 3 (msFromTime t)) = 3"
    using r by (simp_all only: pad_zero_lengths)
  show ?thesis
    unfolding snapshot_digits_def exportTaskIdentifier_in_range [OF assms]
    by (simp add: len pad_zero_digits)
qed

lemma append_eq_same_length:
  "length xs = length ys \<Longrightarrow> xs @ us = ys @ vs \<Longrightarrow> xs = ys \<and> us = vs"
  by simp

lemma exportTaskIdentifier_inj:
  assumes "- 62167219200000 \<le> t1" "t1 < 253402300800000"
    "- 62167219200000 \<le> t2" "t2 < 253402300800000"
    and eq: "exportTaskIdentifier t1 = exportTaskIdentifier t2"
  shows "t1 = t2"
proof -
  note r1 = fields_in_range [OF assms(1,2)] and r2 = fields_in_range [OF assms(3,4)]
  have l4: "length (pad_zero 4 (YearFromTime t1)) = length (pad_zero 4 (YearFromTime t2))"
    by (simp only: pad_zero_lengths(3) [OF r1(1,2)] pad_zero_lengths(3) [OF r2(1,2)])
  have lM: "length (pad_zero 2 (MonthFromTime t1 + 1)) = length (pad_zero 2 (MonthFromTime t2 + 1))"
    by (simp only: pad_zero_lengths(1) [OF r1(3,4)] pad_zero_lengths(1) [OF r2(3,4)])
  have lD: "length (pad_zero 2 (DateFromTime t1)) = length (pad_zero 2 (DateFromTime t2))"
    by (simp only: pad_zero_lengths(1) [OF r1(5,6)] pad_zero_lengths(1) [OF r2(5,6)])
  have lH: "length (pad_zero 2 (HourFromTime t1)) = length (pad_zero 2 (HourFromTime t2))"
    by (simp only: pad_zero_lengths(1) [OF r1(7,8)] pad_zero_lengths(1) [OF r2(7,8)])
  have lm: "length (pad_zero 2 (MinFromTime t1)) = length (pad_zero 2 (MinFromTime t2))"
    by (simp only: pad_zero_lengths(1) [OF r1(9,10)] pad_zero_lengths(1) [OF r2(9,10)])
  have lS: "length (pad_zero 2 (SecFromTime t1)) = length (pad_zero 2 (SecFromTime t2))"
    by (simp only: pad_zero_lengths(1) [OF r1(11,12)] pad_zero_lengths(1) [OF r2(11,12)])
  have "''snapshot'' @ pad_zero 4 (YearFromTime t1)
       @ pad_zero 2 (MonthFromTime t1 + 1) @ pad_zero 2 (DateFromTime t1)
       @ pad_zero 2 (HourFromTime t1) @ pad_zero 2 (MinFromTime t1) @ pad_zero 2 (SecFromTime t1)
       @ pad_zero 3 (msFromTime t1) =
     ''snapshot'' @ pad_zero 4 (YearFromTime t2)
       @ pad_zero 2 (MonthFromTime t2 + 1) @ pad_zero 2 (DateFromTime t2)
       @ pad_zero 2 (HourFromTime t2) @ pad_zero 2 (MinFromTime t2) @ pad_zero 2 (SecFromTime t2)
       @ pad_zero 3 (msFromTime t2)"
    using eq
    by (simp only: exportTaskIdentifier_in_range [OF assms(1,2)]
        exportTaskIdentifier_in_range [OF assms(3,4)])
  then have e0: "pad_zero 4 (YearFromTime t1)
       @ pad_zero 2 (MonthFromTime t1 + 1) @ pad_zero 2 (DateFromTime t1)
       @ pad_zero 2 (HourFromTime t1) @ pad_zero 2 (MinFromTime t1) @ pad_zero 2 (SecFromTime t1)
       @ pad_zero 3 (msFromTime t1) =
     pad_zero 4 (YearFromTime t2)
       @ pad_zero 2 (MonthFromTime t2 + 1) @ pad_zero 2 (DateFromTime t2)
       @ pad_zero 2 (HourFromTime t2) @ pad_zero 2 (MinFromTime t2) @ pad_zero 2 (SecFromTime t2)
       @ pad_zero 3 (msFromTime t2)"
    by (rule same_append_eq [THEN iffD1])
  note e1 = append_eq_same_length [OF l4 e0]
  note e2 = append_eq_same_length [OF lM conjunct2 [OF e1]]
  note e3 = append_eq_same_length [OF lD conjunct2 [OF e2]]
  note e4 = append_eq_same_length [OF lH conjunct2 [OF e3]]
  note e5 = append_eq_same_length [OF lm conjunct2 [OF e4]]
  note e6 = append_eq_same_length [OF lS conjunct2 [OF e5]]
  have Y: "YearFromTime t1 = YearFromTime t2"
    by (rule pad_zero_4_inj [OF r1(1,2) r2(1,2) conjunct1 [OF e1]])
  have "MonthFromTime t1 + 1 = MonthFromTime t2 + 1"
    by (rule pad_zero_2_inj [OF r1(3,4) r2(3,4) conjunct1 [OF e2]])
  then have M: "MonthFromTime t1 = MonthFromTime t2"
    by (simp only: add_right_cancel)
  have D: "DateFromTime t1 = DateFromTime t2"
    by (rule pad_zero_2_inj [OF r1(5,6) r2(5,6) conjunct1 [OF e3]])
  have H: "HourFromTime t1 = HourFromTime t2"
    by (rule pad_zero_2_inj [OF r1(7,8) r2(7,8) conjunct1 [OF e4]])
  have Mi: "MinFromTime t1 = MinFromTime t2"
    by (rule pad_zero_2_inj [OF r1(9,10) r2(9,10) conjunct1 [OF e5]])
  have S: "SecFromTime t1 = SecFromTime t2"
    by (rule pad_zero_2_inj [OF r1(11,12) r2(11,12) conjunct1 [OF e6]])
  have ms: "msFromTime t1 = msFromTime t2"
    by (rule pad_zero_3_inj [OF r1(13,14) r2(13,14) conjunct2 [OF e6]])
  show ?thesis
    by (rule fields_determine_time [OF Y M D H Mi S ms])
qed

lemma year_2025_later: "YearFromTime 1736899201000 = 2025"
  by (simp add: YearFromTime_def Day_def msPerDay_def year_search.simps TimeFromYear_def DayFromYear_def)

lemma fields_2025_later:
  "MonthFromTime 1736899201000 = 0" "DateFromTime 1736899201000 = 15"
  "HourFromTime 1736899201000 = 0" "MinFromTime 1736899201000 = 0"
  "SecFromTime 1736899201000 = 1" "msFromTime 1736899201000 = 0"
  by (simp_all add: MonthFromTime_def DateFromTime_def DayWithinYear_def InLeapYear_def
      year_2025_later Day_def msPerDay_def DayFromYear_def DaysInYear_def HourFromTime_def
      MinFromTime_def SecFromTime_def msFromTime_def)

lemma iso_2025_later: "toISOString 1736899201000 = ''2025-01-15T00:00:01.000Z''"
  by (simp add: toISOString_def year_2025_later fields_2025_later year_string_def pad_zero_def
      nat_to_decimal.simps digit_char_def replicate_numeral)

lemma id_2025_later: "exportTaskIdentifier 1736899201000 = ''snapshot20250115000001000''"
  by (simp add: exportTaskIdentifier_def iso_2025_later in_class_def)

section \<open>Properties of the create, wait and export handler\<close>

text \<open>
  C1. In the create, wait and export handler, a wait request appears in the trace only
  after a create request, and only when the create request was acknowledged; an export
  request appears only after a wait request, and only when that wait reported the
  snapshot available. When the create fails, neither wait nor export is sent; when the
  wait fails, no export is sent; and in each of these cases, as when the export itself
  fails, the invocation returns status 500.
\<close>

theorem createAndExport_steps_in_order:
  "let r = createAndExport_handler rt env w0 in
     (\<forall>i<length (sent r). is_wait (sent r ! i) \<longrightarrow>
        create_acknowledged rt env w0 \<and> (\<exists>j<i. is_create (sent r ! j)))
   \<and> (\<forall>i<length (sent r). is_export (sent r ! i) \<longrightarrow>
        create_acknowledged rt env w0 \<and> snapshot_available rt env w0 \<and> (\<exists>j<i. is_wait (sent r ! j)))
   \<and> (\<not> create_acknowledged rt env w0 \<longrightarrow>
        status (settled r) = Some 500 \<and> \<not> list_ex is_wait (sent r) \<and> \<not> list_ex is_export (sent r))
   \<and> (create_acknowledged rt env w0 \<and> \<not> snapshot_available rt env w0 \<longrightarrow>
        status (settled r) = Some 500 \<and> \<not> list_ex is_export (sent r))
   \<and> (create_acknowledged rt env w0 \<and> snapshot_available rt env w0 \<and> \<not> export_accepted rt env w0 \<longrightarrow>
        status (settled r) = Some 500)"
proof (cases "create_acknowledged rt env w0")
  case False
  show ?thesis
    using False handler_create_failed [OF False] by (simp add: Let_def)
next
  case ack: True
  show ?thesis
  proof (cases "snapshot_available rt env w0")
    case False
    show ?thesis
      using ack False handler_wait_failed [OF ack False]
      by (simp add: Let_def less_Suc_eq)
  next
    case True
    have st: "status (settled (createAndExport_handler rt env w0)) = Some 500"
      by (rule createAndExport_status_500)
    show ?thesis
      using ack True handler_export_failed(1) [OF ack True] st
      by (auto simp: Let_def less_Suc_eq)
  qed
qed

theorem createAndExport_steps_in_order_witness:
  "(\<not> create_acknowledged rt_create_rejected example_env 0
    \<and> status (settled (createAndExport_handler rt_create_rejected example_env 0)) = Some 500
    \<and> length (sent (createAndExport_handler rt_create_rejected example_env 0)) = 1)
   \<and> (create_acknowledged rt_wait_timeout example_env 0
    \<and> \<not> snapshot_available rt_wait_timeout example_env 0
    \<and> status (settled (createAndExport_handler rt_wait_timeout example_env 0)) = Some 500
    \<and> length (sent (createAndExport_handler rt_wait_timeout example_env 0)) = 2)
   \<and> (is_wait (sent (createAndExport_handler rt_export_rejected example_env 0) ! 1)
    \<and> length (sent (createAndExport_handler rt_export_rejected example_env 0)) = 2
    \<and> create_acknowledged rt_export_rejected example_env 0
    \<and> snapshot_available rt_export_rejected example_env 0
    \<and> \<not> export_accepted rt_export_rejected example_env 0
    \<and> status (settled (createAndExport_handler rt_export_rejected example_env 0)) = Some 500)"
  using createAndExport_steps_in_order
          [of rt_create_rejected example_env 0]
        createAndExport_steps_in_order
          [of rt_wait_timeout example_env 0]
        createAndExport_steps_in_order
          [of rt_export_rejected example_env 0]
  by (simp add: run_defs)

text \<open>
  C2. Every wait request of the handler carries the ceiling of 600 seconds. When the
  create was acknowledged and the wait ends by exceeding the ceiling (the waiter gives
  \<open>TIMEOUT\<close>), the handler returns status 500 with the message of the waiter's error, and
  no export request is sent.
\<close>

theorem createAndExport_wait_timeout:
  \<open>let r = createAndExport_handler rt env w0 in
     (\<forall>c \<in> set (sent r). \<forall>p i. c = WaitUntilDBClusterSnapshotAvailable p i \<longrightarrow> maxWaitTime p = 600)
   \<and> (create_acknowledged rt env w0 \<and> fst (wait_step rt env w0) = TIMEOUT e \<longrightarrow>
        settled r = Fulfilled \<lparr>statusCode = 500,
          body = Some (''{"message":"Failed to create or export DB cluster snapshot.","error":''
                        @ QuoteJSONString (message e) @ ''}'')\<rparr>
        \<and> \<not> list_ex is_export (sent r))\<close>
proof (cases "create_acknowledged rt env w0")
  case False
  show ?thesis
    using False handler_create_failed(1) [OF False] by (simp add: Let_def)
next
  case ack: True
  show ?thesis
  proof (cases "snapshot_available rt env w0")
    case True
    show ?thesis
      using True handler_export_failed(1) [OF ack True]
      by (auto simp: Let_def snapshot_available_def waiterParams_def)
  next
    case False
    have "settled (createAndExport_handler rt env w0) = createAndExport_failure e"
      if "fst (wait_step rt env w0) = TIMEOUT e"
      using that ack
      by (auto simp: createAndExport_handler_def step_defs Let_def
          waitUntilDBClusterSnapshotAvailable_def split: prod.splits sum.splits)
    then show ?thesis
      using handler_wait_failed(1) [OF ack False]
      by (auto simp: Let_def waiterParams_def createAndExport_failure_body)
  qed
qed

theorem createAndExport_wait_timeout_witness:
  \<open>create_acknowledged rt_wait_timeout example_env 0
   \<and> fst (wait_step rt_wait_timeout example_env 0) = TIMEOUT timeout_error
   \<and> settled (createAndExport_handler rt_wait_timeout example_env 0) =
       Fulfilled \<lparr>statusCode = 500,
         body = Some ''{"message":"Failed to create or export DB cluster snapshot.","error":"Waiter has timed out"}''\<rparr>
   \<and> \<not> list_ex is_export (sent (createAndExport_handler rt_wait_timeout example_env 0))\<close>
  using createAndExport_wait_timeout
          [of rt_wait_timeout
              example_env 0 timeout_error]
  by (simp add: run_defs timeout_error_def QuoteJSONString_def quote_char_def JSON_stringify_def)

text \<open>
  C7. When the create was acknowledged and the snapshot was reported available, the export
  step fails in every world: the export command cannot be built and the handler catches
  the \<^verbatim>\<open>TypeError\<close>. It returns status 500 with the message of that error; the create and
  the wait are the only requests it sends, and the world is left as the wait left it:
  nothing is sent to delete the snapshot or to undo the create.
\<close>

theorem createAndExport_export_failure_no_rollback:
  \<open>create_acknowledged rt env w0 \<and> snapshot_available rt env w0 \<longrightarrow>
   export_command rt env w0 =
     Inl (TypeError (export_command_callee rt @ '' is not a constructor''))
   \<and> settled (createAndExport_handler rt env w0) =
       Fulfilled \<lparr>statusCode = 500,
         body = Some (''{"message":"Failed to create or export DB cluster snapshot.","error":''
                       @ QuoteJSONString (export_command_callee rt @ '' is not a constructor'')
                       @ ''}'')\<rparr>
   \<and> sent (createAndExport_handler rt env w0) =
       [CreateDBClusterSnapshotCommand (createSnapshotParams (read_config env)),
        WaitUntilDBClusterSnapshotAvailable waiterParams (waiterInput (read_config env))]
   \<and> world (createAndExport_handler rt env w0) = snd (wait_step rt env w0)\<close>
  using handler_export_failed [of rt env w0] export_command_throws [of rt env w0]
  by (simp add: createAndExport_failure_body TypeError_def)

theorem createAndExport_export_failure_no_rollback_witness:
  \<open>create_acknowledged rt_export_rejected example_env 0
   \<and> snapshot_available rt_export_rejected example_env 0
   \<and> settled (createAndExport_handler rt_export_rejected example_env 0) =
       Fulfilled \<lparr>statusCode = 500,
         body = Some ''{"message":"Failed to create or export DB cluster snapshot.","error":"client_rds_1.ExportDBClusterSnapshotToS3Command is not a constructor"}''\<rparr>
   \<and> sent (createAndExport_handler rt_export_rejected example_env 0) =
       [CreateDBClusterSnapshotCommand
          \<lparr>DBClusterIdentifier = Some ''mycluster'', DBClusterSnapshotIdentifier = Some ''snap1''\<rparr>,
        WaitUntilDBClusterSnapshotAvailable \<lparr>maxWaitTime = 600\<rparr>
          \<lparr>DBClusterIdentifier = Some ''mycluster'', DBClusterSnapshotIdentifier = Some ''snap1''\<rparr>]
   \<and> snd (wait_step rt_export_rejected example_env 0) = 2
   \<and> world (createAndExport_handler rt_export_rejected example_env 0) = 2\<close>
  using createAndExport_export_failure_no_rollback
          [of rt_export_rejected example_env 0]
  by (simp add: run_defs QuoteJSONString_def quote_char_def JSON_stringify_def)

text \<open>
  C8. The example scenario of the specification: the environment names the cluster
  \<^verbatim>\<open>mycluster\<close>, the snapshot \<^verbatim>\<open>snap1\<close>, the bucket \<^verbatim>\<open>bucket1\<close> and the role \<^verbatim>\<open>arn:role\<close>, the
  create is acknowledged, the snapshot is available at once, and the control plane would
  accept the export request and echo its identifier. The specification has the handler
  return status 200 with an identifier of the form \<^verbatim>\<open>snap1-export-<number>\<close>. The handler
  builds the export parameters with the identifier \<^verbatim>\<open>snap1-export-1736899200002\<close>, cannot
  build the export command, sends the create and the wait request and nothing else, and
  returns status 500 with the message of the \<^verbatim>\<open>TypeError\<close>.
\<close>

theorem createAndExport_example_scenario:
  \<open>create_acknowledged rt_same_identifier example_env 0
   \<and> snapshot_available rt_same_identifier example_env 0
   \<and> export_accepted rt_same_identifier example_env 0
   \<and> ExportTaskIdentifier (export_request rt_same_identifier example_env 0)
       = ''snap1-export-1736899200002''
   \<and> sent (createAndExport_handler rt_same_identifier example_env 0) =
       [CreateDBClusterSnapshotCommand
          \<lparr>DBClusterIdentifier = Some ''mycluster'', DBClusterSnapshotIdentifier = Some ''snap1''\<rparr>,
        WaitUntilDBClusterSnapshotAvailable \<lparr>maxWaitTime = 600\<rparr>
          \<lparr>DBClusterIdentifier = Some ''mycluster'', DBClusterSnapshotIdentifier = Some ''snap1''\<rparr>]
   \<and> settled (createAndExport_handler rt_same_identifier example_env 0) =
       Fulfilled \<lparr>statusCode = 500,
         body = Some ''{"message":"Failed to create or export DB cluster snapshot.","error":"client_rds_1.ExportDBClusterSnapshotToS3Command is not a constructor"}''\<rparr>\<close>
  by (simp add: run_defs QuoteJSONString_def quote_char_def JSON_stringify_def
      template_string_def Number_toString_def nat_to_decimal.simps digit_char_def)

text \<open>
  C9. The success response that the claim describes is never built. In the worlds where
  every request is accepted and the control plane would answer an export request with the
  identifier \<^verbatim>\<open>task-7\<close>, or with no identifier, the handler sends no export request,
  receives no export response and returns status 500; its body holds the message of the
  \<^verbatim>\<open>TypeError\<close> and no export task identifier.
\<close>

theorem createAndExport_no_success_response:
  \<open>(create_acknowledged rt_other_identifier example_env 0
    \<and> snapshot_available rt_other_identifier example_env 0
    \<and> fst (export_step rt_other_identifier example_env 0)
        = Inr \<lparr>result_ExportTaskIdentifier = Some ''task-7''\<rparr>
    \<and> \<not> list_ex is_export (sent (createAndExport_handler rt_other_identifier example_env 0))
    \<and> settled (createAndExport_handler rt_other_identifier example_env 0) =
        Fulfilled \<lparr>statusCode = 500,
          body = Some ''{"message":"Failed to create or export DB cluster snapshot.","error":"client_rds_1.ExportDBClusterSnapshotToS3Command is not a constructor"}''\<rparr>)
   \<and> (create_acknowledged rt_no_identifier example_env 0
    \<and> snapshot_available rt_no_identifier example_env 0
    \<and> fst (export_step rt_no_identifier example_env 0)
        = Inr \<lparr>result_ExportTaskIdentifier = None\<rparr>
    \<and> \<not> list_ex is_export (sent (createAndExport_handler rt_no_identifier example_env 0))
    \<and> settled (createAndExport_handler rt_no_identifier example_env 0) =
        Fulfilled \<lparr>statusCode = 500,
          body = Some ''{"message":"Failed to create or export DB cluster snapshot.","error":"client_rds_1.ExportDBClusterSnapshotToS3Command is not a constructor"}''\<rparr>)\<close>
  by (simp add: run_defs QuoteJSONString_def quote_char_def JSON_stringify_def)

section \<open>Properties of the start-export handler\<close>

text \<open>
  C3, as the specification states it: every identifier is \<^verbatim>\<open>snapshot\<close> followed by exactly
  14 digits. At 2025-01-15T00:00:00.000Z the identifier is \<^verbatim>\<open>snapshot20250115000000000\<close>:
  the milliseconds are part of it, and the digits are 17.
\<close>

theorem identifier_14_digits_counterexample:
  "exportTaskIdentifier 1736899200000 = ''snapshot20250115000000000''
   \<and> \<not> snapshot_digits 14 (exportTaskIdentifier 1736899200000)"
  by (simp add: id_2025 snapshot_digits_def)

text \<open>
  C3, amended. Two invocations of the start-export handler whose clock readings differ,
  both within the years 0000 to 9999 of UTC, send requests whose identifiers differ,
  and each identifier is \<^verbatim>\<open>snapshot\<close> followed by exactly 17 digits: the UTC time to the
  millisecond, without its punctuation.
\<close>

theorem startExport_identifiers_differ:
  "- 62167219200000 \<le> Date_now rt w \<and> Date_now rt w < 253402300800000
     \<and> - 62167219200000 \<le> Date_now rt' w' \<and> Date_now rt' w' < 253402300800000
     \<and> Date_now rt w \<noteq> Date_now rt' w' \<longrightarrow>
   sent (startExport_handler rt m env w) = [StartExportTaskCommand (params m (Date_now rt w))]
   \<and> sent (startExport_handler rt' m' env' w') = [StartExportTaskCommand (params m' (Date_now rt' w'))]
   \<and> ExportTaskIdentifier (params m (Date_now rt w)) \<noteq> ExportTaskIdentifier (params m' (Date_now rt' w'))
   \<and> snapshot_digits 17 (ExportTaskIdentifier (params m (Date_now rt w)))
   \<and> snapshot_digits 17 (ExportTaskIdentifier (params m' (Date_now rt' w')))"
proof (intro impI, elim conjE)
  assume r: "- 62167219200000 \<le> Date_now rt w" "Date_now rt w < 253402300800000"
    "- 62167219200000 \<le> Date_now rt' w'" "Date_now rt' w' < 253402300800000"
    and ne: "Date_now rt w \<noteq> Date_now rt' w'"
  have "exportTaskIdentifier (Date_now rt w) \<noteq> exportTaskIdentifier (Date_now rt' w')"
    using exportTaskIdentifier_inj [OF r] ne by blast
  then show "sent (startExport_handler rt m env w) = [StartExportTaskCommand (params m (Date_now rt w))]
   \<and> sent (startExport_handler rt' m' env' w') = [StartExportTaskCommand (params m' (Date_now rt' w'))]
   \<and> ExportTaskIdentifier (params m (Date_now rt w)) \<noteq> ExportTaskIdentifier (params m' (Date_now rt' w'))
   \<and> snapshot_digits 17 (ExportTaskIdentifier (params m (Date_now rt w)))
   \<and> snapshot_digits 17 (ExportTaskIdentifier (params m' (Date_now rt' w')))"
    using exportTaskIdentifier_17 [OF r(1,2)] exportTaskIdentifier_17 [OF r(3,4)]
    by (simp add: startExport_handler_cases params_def)
qed

theorem startExport_identifiers_differ_witness:
  "Date_now rt_start_accepted 0 = 1736899200000
   \<and> Date_now rt_start_accepted 1000 = 1736899201000
   \<and> ExportTaskIdentifier (params (load_module start_env)
         (Date_now rt_start_accepted 0))
       = ''snapshot20250115000000000''
   \<and> ExportTaskIdentifier (params (load_module start_env)
         (Date_now rt_start_accepted 1000))
       = ''snapshot20250115000001000''
   \<and> snapshot_digits 17 (ExportTaskIdentifier (params (load_module start_env)
         (Date_now rt_start_accepted 0)))
   \<and> length (sent (startExport_handler rt_start_accepted
         (load_module start_env) start_env 1000)) = 1"
  using startExport_identifiers_differ
          [of rt_start_accepted 0
              rt_start_accepted 1000
              "load_module start_env" start_env "load_module start_env" start_env]
  by (simp add: rt_defs scripted_runtime_def params_def id_2025 id_2025_later)

text \<open>
  C4. Every invocation of the start-export handler sends exactly one request, a start
  export task request carrying the generated identifier, which is not empty. When the
  request is accepted the handler returns status 200 with that identifier in the body;
  when it is rejected the handler returns status 500; in both cases the invocation is
  fulfilled with a response, never rejected.
\<close>

theorem startExport_one_call:
  \<open>let r = startExport_handler rt m env w0;
       request = params m (Date_now rt w0);
       identifier = exportTaskIdentifier (Date_now rt w0)
   in sent r = [StartExportTaskCommand request]
    \<and> ExportTaskIdentifier request = identifier \<and> identifier \<noteq> []
    \<and> (\<not> isl (fst (start_step rt m w0)) \<longrightarrow>
          settled r = Fulfilled \<lparr>statusCode = 200,
            body = Some (''{"message":"Export task started successfully","exportTaskIdentifier":"''
                          @ identifier @ ''"}'')\<rparr>)
    \<and> (isl (fst (start_step rt m w0)) \<longrightarrow> status (settled r) = Some 500)
    \<and> (\<exists>resp. settled r = Fulfilled resp)\<close>
  by (cases "fst (start_step rt m w0)")
     (simp_all add: Let_def startExport_handler_cases startExport_success_body
        startExport_failure_body params_def exportTaskIdentifier_not_Nil)

theorem startExport_one_call_witness:
  \<open>\<not> isl (fst (start_step rt_start_accepted (load_module start_env) 0))
   \<and> settled (startExport_handler rt_start_accepted (load_module start_env) start_env 0) =
       Fulfilled \<lparr>statusCode = 200,
         body = Some ''{"message":"Export task started successfully","exportTaskIdentifier":"snapshot20250115000000000"}''\<rparr>
   \<and> isl (fst (start_step rt_start_rejected (load_module start_env) 0))
   \<and> status (settled (startExport_handler rt_start_rejected (load_module start_env) start_env 0)) = Some 500
   \<and> length (sent (startExport_handler rt_start_rejected (load_module start_env) start_env 0)) = 1\<close>
  using startExport_one_call
          [of rt_start_accepted
              "load_module start_env" start_env 0]
        startExport_one_call
          [of rt_start_rejected
              "load_module start_env" start_env 0]
  by (simp add: start_defs id_2025)

section \<open>Properties of both handlers\<close>







text \<open>
  C10, as the specification states it: when the start-export handler catches an instance
  of \<^verbatim>\<open>Error\<close>, the serialised body loses the error's message. A service exception that the
  SDK has no class for is an instance of \<^verbatim>\<open>Error\<close> whose message is an enumerable own
  property: when the request is rejected with one, the body of the start-export handler
  carries its message.
\<close>

theorem startExport_failure_message_counterexample:
  \<open>fst (start_step rt_start_rejected (load_module start_env) 0) = Inl access_denied
   \<and> message access_denied = ''Access denied''
   \<and> settled (startExport_handler rt_start_rejected (load_module start_env) start_env 0) =
       Fulfilled \<lparr>statusCode = 500,
         body = Some ''{"message":"Failed to start export task","error":{"name":"AccessDenied","$fault":"client","$metadata":{"httpStatusCode":403,"requestId":"r-1","attempts":1,"totalRetryDelay":0},"Type":"Sender","Code":"AccessDenied","message":"Access denied"}}''\<rparr>
   \<and> body_contains ''"message":"Access denied"''
        (settled (startExport_handler rt_start_rejected (load_module start_env) start_env 0))\<close>
  by (simp add: start_defs access_denied_def JSON_stringify_def QuoteJSONString_def
      quote_char_def Number_toString_def nat_to_decimal.simps digit_char_def)

text \<open>
  C10, amended. When its request is rejected, the start-export handler puts the caught
  error object under the key \<^verbatim>\<open>error\<close>: the body holds the error's own enumerable
  properties. It carries the error's message when the message is one of them, as for the
  service exceptions the SDK has no class for; when the message is not enumerable, as
  for an error built by the constructor of \<^verbatim>\<open>Error\<close> with its message, the body is the same
  whatever the message. The create, wait and export handler puts the message of the error
  it caught, as a string, under that key.
\<close>

theorem failure_bodies_error_detail:
  \<open>(fst (start_step rt m w0) = Inl e \<longrightarrow>
      settled (startExport_handler rt m env w0) =
        Fulfilled \<lparr>statusCode = 500,
          body = Some (''{"message":"Failed to start export task","error":{''
                        @ join_comma (SerializeJSONMembers (properties e) @
                            (if enumerable_message e
                             then [''"message":'' @ QuoteJSONString (message e)] else []))
                        @ ''}}'')\<rparr>
      \<and> (enumerable_message e \<longrightarrow>
           body_contains (QuoteJSONString (message e))
             (settled (startExport_handler rt m env w0))))
   \<and> (\<not> enumerable_message e \<longrightarrow>
        startExport_failure (e\<lparr>message := other\<rparr>) = startExport_failure e)
   \<and> (createAndExport_caught rt' env' w0' = Some e' \<longrightarrow>
      settled (createAndExport_handler rt' env' w0') =
        Fulfilled \<lparr>statusCode = 500,
          body = Some (''{"message":"Failed to create or export DB cluster snapshot.","error":''
                        @ QuoteJSONString (message e') @ ''}'')\<rparr>)\<close>
proof (intro conjI impI)
  assume "fst (start_step rt m w0) = Inl e"
  then show \<open>settled (startExport_handler rt m env w0) =
        Fulfilled \<lparr>statusCode = 500,
          body = Some (''{"message":"Failed to start export task","error":{''
                        @ join_comma (SerializeJSONMembers (properties e) @
                            (if enumerable_message e
                             then [''"message":'' @ QuoteJSONString (message e)] else []))
                        @ ''}}'')\<rparr>\<close>
    by (simp add: startExport_handler_cases startExport_failure_body)
next
  assume "fst (start_step rt m w0) = Inl e" and "enumerable_message e"
  then show "body_contains (QuoteJSONString (message e))
               (settled (startExport_handler rt m env w0))"
    by (simp add: startExport_handler_cases startExport_failure_keeps_message)
next
  assume "\<not> enumerable_message e"
  then show "startExport_failure (e\<lparr>message := other\<rparr>) = startExport_failure e"
    by (simp add: startExport_failure_body)
next
  assume "createAndExport_caught rt' env' w0' = Some e'"
  then show \<open>settled (createAndExport_handler rt' env' w0') =
        Fulfilled \<lparr>statusCode = 500,
          body = Some (''{"message":"Failed to create or export DB cluster snapshot.","error":''
                        @ QuoteJSONString (message e') @ ''}'')\<rparr>\<close>
    by (simp add: createAndExport_caught_settled createAndExport_failure_body)
qed

theorem failure_bodies_error_detail_witness:
  \<open>(fst (start_step rt_start_rejected (load_module start_env) 0) = Inl access_denied
    \<and> enumerable_message access_denied
    \<and> body_contains (QuoteJSONString (message access_denied))
         (settled (startExport_handler rt_start_rejected (load_module start_env) start_env 0)))
   \<and> (fst (start_step rt_start_unreachable (load_module start_env) 0) = Inl connection_timeout
    \<and> \<not> enumerable_message connection_timeout
    \<and> settled (startExport_handler rt_start_unreachable (load_module start_env) start_env 0) =
        Fulfilled \<lparr>statusCode = 500,
          body = Some ''{"message":"Failed to start export task","error":{"name":"TimeoutError"}}''\<rparr>
    \<and> startExport_failure (connection_timeout\<lparr>message := ''x''\<rparr>)
        = startExport_failure connection_timeout)
   \<and> (createAndExport_caught rt_wait_failure example_env 0 = Some waiter_failure
    \<and> settled (createAndExport_handler rt_wait_failure example_env 0) =
        Fulfilled \<lparr>statusCode = 500,
          body = Some (''{"message":"Failed to create or export DB cluster snapshot.","error":"{''
                        @ [CHR 0x5C] @ ''"state'' @ [CHR 0x5C] @ ''":'' @ [CHR 0x5C]
                        @ ''"FAILURE'' @ [CHR 0x5C] @ ''"}"}'')\<rparr>)
   \<and> (createAndExport_caught rt_same_identifier example_env 0 =
        Some (TypeError ''client_rds_1.ExportDBClusterSnapshotToS3Command is not a constructor'')
    \<and> settled (createAndExport_handler rt_same_identifier example_env 0) =
        Fulfilled \<lparr>statusCode = 500,
          body = Some ''{"message":"Failed to create or export DB cluster snapshot.","error":"client_rds_1.ExportDBClusterSnapshotToS3Command is not a constructor"}''\<rparr>)\<close>
  using failure_bodies_error_detail
          [of rt_start_rejected "load_module start_env" 0 access_denied start_env "''x''"
              rt_wait_failure example_env 0 waiter_failure]
        failure_bodies_error_detail
          [of rt_start_rejected "load_module start_env" 0 access_denied start_env "''x''"
              rt_same_identifier example_env 0
              "TypeError ''client_rds_1.ExportDBClusterSnapshotToS3Command is not a constructor''"]
        failure_bodies_error_detail
          [of rt_start_unreachable "load_module start_env" 0 connection_timeout start_env "''x''"
              rt_wait_failure example_env 0 waiter_failure]
  by (simp add: start_defs run_defs createAndExport_caught_def access_denied_def
      connection_timeout_def waiter_failure_def
      JSON_stringify_def QuoteJSONString_def quote_char_def)

end
